theory Spec2Isabelle
  imports Main "HOL-Library.Sublist" "HOL-Library.Monad_Syntax"
begin

section \<open>Loosely typed carrier payloads\<close>

text \<open>
  The Purolator transformer takes its SOAP payload as \<^verbatim>\<open>any\<close>, so the payload is
  modelled as a JavaScript value tree: the values that \<^verbatim>\<open>JSON.parse\<close> and the SOAP
  client build, and \<^verbatim>\<open>undefined\<close>. A number is given by the text JavaScript prints
  for it (\<^verbatim>\<open>0\<close> for both zeros, \<^verbatim>\<open>1e+21\<close>, \<^verbatim>\<open>NaN\<close>), which is all the
  transformer observes of a number: it tests it for truthiness, renders it and passes it
  on. An object is the association list of its own properties, the first binding of a
  name counting; its prototype is \<^verbatim>\<open>Object.prototype\<close> and no property is a function.
  Limits of the engine (call stack, memory) are outside the model.
\<close>

datatype json =
    JUndefined
  | JNull
  | JBool bool
  | JNum string
  | JStr string
  | JArr "json list"
  | JObj "(string \<times> json) list"

text \<open>JavaScript truthiness: what \<^verbatim>\<open>if (x)\<close>, \<^verbatim>\<open>!x\<close>, \<^verbatim>\<open>x || y\<close> and \<^verbatim>\<open>x ? a : b\<close> test.\<close>

fun truthy :: "json \<Rightarrow> bool" where
  "truthy JUndefined = False"
| "truthy JNull = False"
| "truthy (JBool b) = b"
| "truthy (JNum n) = (n \<noteq> ''0'' \<and> n \<noteq> ''NaN'')"
| "truthy (JStr s) = (s \<noteq> [])"
| "truthy (JArr xs) = True"
| "truthy (JObj kvs) = True"

fun nullish :: "json \<Rightarrow> bool" where
  "nullish JUndefined = True"
| "nullish JNull = True"
| "nullish j = False"

fun isString :: "json \<Rightarrow> bool" where
  "isString (JStr s) = True"
| "isString j = False"

text \<open>
  \<^verbatim>\<open>x.name\<close> for the property names the transformer reads, none of which is a built-in
  property of an array, a string, a number or a boolean: reading a property of
  \<^verbatim>\<open>null\<close> or \<^verbatim>\<open>undefined\<close> throws a TypeError (\<open>None\<close>), an object
  yields its property or \<^verbatim>\<open>undefined\<close>, everything else yields \<^verbatim>\<open>undefined\<close>.
\<close>

fun getProp :: "json \<Rightarrow> string \<Rightarrow> json option" where
  "getProp JUndefined k = None"
| "getProp JNull k = None"
| "getProp (JObj kvs) k = Some (case map_of kvs k of None \<Rightarrow> JUndefined | Some v \<Rightarrow> v)"
| "getProp j k = Some JUndefined"

text \<open>\<^verbatim>\<open>x?.name\<close>: \<^verbatim>\<open>undefined\<close> instead of the TypeError.\<close>

definition optProp :: "json \<Rightarrow> string \<Rightarrow> json" where
  "optProp j k = (case getProp j k of None \<Rightarrow> JUndefined | Some v \<Rightarrow> v)"

text \<open>\<^verbatim>\<open>x[0]\<close>: the first element of an array, the first character of a string.\<close>

fun getIndex0 :: "json \<Rightarrow> json option" where
  "getIndex0 JUndefined = None"
| "getIndex0 JNull = None"
| "getIndex0 (JArr xs) = Some (case xs of [] \<Rightarrow> JUndefined | x # _ \<Rightarrow> x)"
| "getIndex0 (JStr s) = Some (case s of [] \<Rightarrow> JUndefined | c # _ \<Rightarrow> JStr [c])"
| "getIndex0 (JObj kvs) = Some (case map_of kvs ''0'' of None \<Rightarrow> JUndefined | Some v \<Rightarrow> v)"
| "getIndex0 j = Some JUndefined"

text \<open>\<^verbatim>\<open>x || y\<close>.\<close>

definition orElse :: "json \<Rightarrow> json \<Rightarrow> json" where
  "orElse x y = (if truthy x then x else y)"

text \<open>
  A \<^verbatim>\<open>Date\<close> is kept as the constructor call that made it: \<^verbatim>\<open>new Date(v)\<close>,
  \<^verbatim>\<open>new Date()\<close>, or \<^verbatim>\<open>new Date(year, month, day, hours, minutes, seconds)\<close> whose
  arguments are results of \<^verbatim>\<open>parseInt\<close> (\<open>None\<close> is NaN).
\<close>

datatype jsdate =
    DateOf json
  | DateNow
  | DateLocal "int option" "int option" "int option" "int option" "int option" "int option"

section \<open>The canonical model\<close>

record StandardizedAddress =
  addr_city :: json
  addr_proviceState :: json
  addr_countryCode :: json
  addr_postalZipCode :: json

record StandardizedLocation =
  address_1 :: json
  address_2 :: json
  loc_city :: json
  loc_proviceState :: json
  loc_countryCode :: json
  loc_postalZipCode :: json

record StandardizedEvent =
  dateTime :: jsdate
  ev_code :: json
  ev_description :: json
  location :: StandardizedLocation

record StandardizedPackage =
  pin :: json
  pkg_status :: json
  pkg_description :: json
  lastEvent :: StandardizedEvent

record StandardizedShipment =
  shp_status :: json
  shp_description :: json
  isDelivered :: bool
  createdDate :: jsdate
  shipper :: StandardizedAddress
  receiver :: StandardizedAddress
  packages :: "StandardizedPackage list"

record TrackingResponse =
  status :: string
  description :: string
  errors :: "string list"
  shipment :: StandardizedShipment

section \<open>The tracking store\<close>

text \<open>
  A document of the \<^verbatim>\<open>tracked_shipments\<close> collection, with the fields the schema
  declares. Times are milliseconds since the epoch; every operation that calls
  \<^verbatim>\<open>new Date()\<close> or \<^verbatim>\<open>Date.now()\<close> takes the current time as its first argument.
  The collection is the list of its documents in insertion order. The identifiers and
  the \<^verbatim>\<open>createdAt\<close>/\<^verbatim>\<open>updatedAt\<close> stamps that the persistence library maintains
  by itself are not part of the model.
\<close>

record TrackedShipment =
  trackingNo :: string
  service :: string
  trackingResponse :: TrackingResponse
  lastUpdated :: int
  isActive :: bool
  errorCount :: nat
  lastError :: "string option"

type_synonym store = "TrackedShipment list"

definition hasKey :: "string \<Rightarrow> string \<Rightarrow> TrackedShipment \<Rightarrow> bool" where
  "hasKey tn sv d = (trackingNo d = tn \<and> service d = sv)"

definition findOne :: "store \<Rightarrow> string \<Rightarrow> string \<Rightarrow> TrackedShipment option" where
  "findOne db tn sv = find (hasKey tn sv) db"

text \<open>\<^verbatim>\<open>doc.save()\<close> of a document that \<open>findOne\<close> returned: it replaces that document.\<close>

fun save :: "string \<Rightarrow> string \<Rightarrow> TrackedShipment \<Rightarrow> store \<Rightarrow> store" where
  "save tn sv d [] = []"
| "save tn sv d (x # xs) = (if hasKey tn sv x then d # xs else x # save tn sv d xs)"

definition findOrCreate ::
  "int \<Rightarrow> string \<Rightarrow> string \<Rightarrow> TrackingResponse \<Rightarrow> store \<Rightarrow> TrackedShipment \<times> store" where
  "findOrCreate now tn sv resp db =
     (case findOne db tn sv of
        Some existing \<Rightarrow>
          (let d = existing\<lparr>trackingResponse := resp, lastUpdated := now,
                            errorCount := 0, lastError := None\<rparr>
           in (d, save tn sv d db))
      | None \<Rightarrow>
          (let d = \<lparr>trackingNo = tn, service = sv, trackingResponse = resp,
                    lastUpdated = now, isActive = True, errorCount = 0, lastError = None\<rparr>
           in (d, db @ [d])))"

text \<open>The instance methods \<^verbatim>\<open>updateTracking\<close> and \<^verbatim>\<open>recordError\<close>, before the save.\<close>

definition updateTracking :: "int \<Rightarrow> TrackingResponse \<Rightarrow> TrackedShipment \<Rightarrow> TrackedShipment" where
  "updateTracking now resp d =
     d\<lparr>trackingResponse := resp, lastUpdated := now, errorCount := 0, lastError := None\<rparr>"

definition recordErrorDoc :: "int \<Rightarrow> string \<Rightarrow> TrackedShipment \<Rightarrow> TrackedShipment" where
  "recordErrorDoc now msg d =
     (let d1 = d\<lparr>errorCount := errorCount d + 1, lastError := Some msg, lastUpdated := now\<rparr>
      in if errorCount d1 \<ge> 10 then d1\<lparr>isActive := False\<rparr> else d1)"

text \<open>The service methods of \<^verbatim>\<open>TrackingDatabaseService\<close>.\<close>

definition saveTrackedShipment ::
  "int \<Rightarrow> string \<Rightarrow> string \<Rightarrow> TrackingResponse \<Rightarrow> store \<Rightarrow> TrackedShipment \<times> store" where
  "saveTrackedShipment now tn sv resp db = findOrCreate now tn sv resp db"

definition updateTrackingResponse ::
  "int \<Rightarrow> string \<Rightarrow> string \<Rightarrow> TrackingResponse \<Rightarrow> store \<Rightarrow> TrackedShipment option \<times> store" where
  "updateTrackingResponse now tn sv resp db =
     (case findOne db tn sv of
        None \<Rightarrow> (None, db)
      | Some d \<Rightarrow> (let d' = updateTracking now resp d in (Some d', save tn sv d' db)))"

definition recordError ::
  "int \<Rightarrow> string \<Rightarrow> string \<Rightarrow> string \<Rightarrow> store \<Rightarrow> TrackedShipment option \<times> store" where
  "recordError now tn sv msg db =
     (case findOne db tn sv of
        None \<Rightarrow> (None, db)
      | Some d \<Rightarrow> (let d' = recordErrorDoc now msg d in (Some d', save tn sv d' db)))"

definition deactivateShipment :: "string \<Rightarrow> string \<Rightarrow> store \<Rightarrow> TrackedShipment option \<times> store" where
  "deactivateShipment tn sv db =
     (case findOne db tn sv of
        None \<Rightarrow> (None, db)
      | Some d \<Rightarrow> (let d' = d\<lparr>isActive := False\<rparr> in (Some d', save tn sv d' db)))"

text \<open>
  \<^verbatim>\<open>getShipmentsNeedingUpdate\<close>: the query's filter, its sort and its projection.
  The sort is by \<open>lastUpdated\<close> ascending; the database leaves the order of ties open,
  the model keeps them in collection order.
\<close>

definition needsUpdate :: "int \<Rightarrow> TrackedShipment \<Rightarrow> bool" where
  "needsUpdate cutoffTime d =
     (isActive d \<and> lastUpdated d < cutoffTime
      \<and> isDelivered (shipment (trackingResponse d)) \<noteq> True)"

definition staleDocuments :: "int \<Rightarrow> int \<Rightarrow> store \<Rightarrow> TrackedShipment list" where
  "staleDocuments now olderThanMinutes db =
     (let cutoffTime = now - olderThanMinutes * 60 * 1000
      in sort_key lastUpdated (filter (needsUpdate cutoffTime) db))"

definition getShipmentsNeedingUpdate :: "int \<Rightarrow> int \<Rightarrow> store \<Rightarrow> (string \<times> string) list" where
  "getShipmentsNeedingUpdate now olderThanMinutes db =
     map (\<lambda>d. (trackingNo d, service d)) (staleDocuments now olderThanMinutes db)"

section \<open>Text rendering\<close>

text \<open>
  What a template literal and string concatenation make of a value, \<open>None\<close> being the
  TypeError \<^verbatim>\<open>Cannot convert object to primitive value\<close>. An array gives its elements
  joined by commas, \<^verbatim>\<open>null\<close> and \<^verbatim>\<open>undefined\<close> elements as empty text, and throws
  when an element throws. An object gives \<^verbatim>\<open>[object Object]\<close>, from the
  \<^verbatim>\<open>toString\<close> it inherits; an object with an own property named \<^verbatim>\<open>toString\<close>
  throws: the property hides the inherited method, its value is not a function, and
  \<^verbatim>\<open>valueOf\<close>, own or inherited, yields no primitive either.
\<close>

fun joinWith :: "string \<Rightarrow> string list \<Rightarrow> string" where
  "joinWith sep [] = []"
| "joinWith sep [x] = x"
| "joinWith sep (x # y # ys) = x @ sep @ joinWith sep (y # ys)"

fun toStr :: "json \<Rightarrow> string option" where
  "toStr JUndefined = Some ''undefined''"
| "toStr JNull = Some ''null''"
| "toStr (JBool b) = Some (if b then ''true'' else ''false'')"
| "toStr (JNum n) = Some n"
| "toStr (JStr s) = Some s"
| "toStr (JArr xs) =
     map_option (joinWith '','')
       (those (map (\<lambda>x. if nullish x then Some [] else toStr x) xs))"
| "toStr (JObj kvs) =
     (if map_of kvs ''toString'' = None then Some ''[object Object]'' else None)"

text \<open>
  \<^verbatim>\<open>new Date(v)\<close>: an object or array argument is converted to a primitive first,
  which throws the same TypeError in the same cases; a primitive argument never throws.
  The date itself is kept as the constructor call.
\<close>

definition newDate :: "json \<Rightarrow> jsdate option" where
  "newDate v = map_option (\<lambda>s. DateOf v) (toStr v)"

section \<open>The Purolator normalizer\<close>

definition emptyAddress :: StandardizedAddress where
  "emptyAddress =
     \<lparr>addr_city = JStr [], addr_proviceState = JStr [], addr_countryCode = JStr [],
      addr_postalZipCode = JStr []\<rparr>"

definition createEmptyShipment :: StandardizedShipment where
  "createEmptyShipment =
     \<lparr>shp_status = JStr [], shp_description = JStr [], isDelivered = False,
      createdDate = DateNow, shipper = emptyAddress, receiver = emptyAddress,
      packages = []\<rparr>"

definition createEmptyEvent :: StandardizedEvent where
  "createEmptyEvent =
     \<lparr>dateTime = DateNow, ev_code = JStr [], ev_description = JStr [],
      location = \<lparr>address_1 = JStr [], address_2 = JStr [], loc_city = JStr [],
                   loc_proviceState = JStr [], loc_countryCode = JStr [],
                   loc_postalZipCode = JStr []\<rparr>\<rparr>"

definition transformAddress :: "json \<Rightarrow> StandardizedAddress" where
  "transformAddress address =
     \<lparr>addr_city = orElse (optProp address ''city'') (JStr []),
      addr_proviceState = orElse (optProp address ''provinceState'') (JStr []),
      addr_countryCode = orElse (optProp address ''countryCode'') (JStr []),
      addr_postalZipCode = orElse (optProp address ''postalZipCode'') (JStr [])\<rparr>"

definition transformLocation :: "json \<Rightarrow> StandardizedLocation" where
  "transformLocation loc =
     \<lparr>address_1 = orElse (optProp loc ''StreetAddress1'') (JStr []),
      address_2 = orElse (optProp loc ''StreetAddress2'') (JStr []),
      loc_city = orElse (optProp loc ''City'') (JStr []),
      loc_proviceState = orElse (optProp loc ''provinceState'') (JStr []),
      loc_countryCode = orElse (optProp loc ''CountryCode'') (JStr []),
      loc_postalZipCode = orElse (optProp loc ''PostalCode'') (JStr [])\<rparr>"

definition transformEvent :: "json \<Rightarrow> StandardizedEvent option" where
  "transformEvent event = do {
     dt \<leftarrow> getProp event ''dateTime'';
     stamp \<leftarrow> (if truthy dt then newDate dt else Some DateNow);
     c \<leftarrow> getProp event ''code'';
     d \<leftarrow> getProp event ''description'';
     l \<leftarrow> getProp event ''location'';
     Some \<lparr>dateTime = stamp,
           ev_code = orElse c (JStr []), ev_description = orElse d (JStr []),
           location = transformLocation l\<rparr>
   }"

text \<open>The local \<^verbatim>\<open>eventsArray\<close> of \<^verbatim>\<open>transformPackage\<close>.\<close>

definition eventsArray :: "json \<Rightarrow> json list option" where
  "eventsArray pkg = do {
     events \<leftarrow> getProp pkg ''events'';
     if truthy events then
       (case events of
          JArr xs \<Rightarrow> Some xs
        | _ \<Rightarrow> do {
            evt \<leftarrow> getProp events ''event'';
            Some (if truthy evt then (case evt of JArr ys \<Rightarrow> ys | _ \<Rightarrow> [evt]) else [])
          })
     else do {
       le \<leftarrow> getProp pkg ''lastEvent'';
       Some (if truthy le then [le] else [])
     }
   }"

definition transformPackage :: "json \<Rightarrow> StandardizedPackage option" where
  "transformPackage pkg = do {
     evs \<leftarrow> eventsArray pkg;
     let mostRecentEvent = (case evs of [] \<Rightarrow> JNull | e # _ \<Rightarrow> e);
     p \<leftarrow> getProp pkg ''pin'';
     st \<leftarrow> getProp pkg ''status'';
     le \<leftarrow> (if truthy mostRecentEvent then transformEvent mostRecentEvent
           else Some createEmptyEvent);
     Some \<lparr>pin = p, pkg_status = orElse (optProp st ''code'') (JStr []),
           pkg_description = orElse (optProp st ''description'') (JStr []),
           lastEvent = le\<rparr>
   }"

text \<open>The local \<^verbatim>\<open>packagesArray\<close> of \<^verbatim>\<open>transformShipmentInfo\<close>.\<close>

definition packagesArray :: "json \<Rightarrow> json list option" where
  "packagesArray shipmentInfo = do {
     pk \<leftarrow> getProp shipmentInfo ''packages'';
     if truthy pk then
       (case pk of
          JArr xs \<Rightarrow> Some xs
        | _ \<Rightarrow> do {
            pkg \<leftarrow> getProp pk ''package'';
            Some (if truthy pkg then (case pkg of JArr ys \<Rightarrow> ys | _ \<Rightarrow> [pkg]) else [])
          })
     else Some []
   }"

definition transformShipmentInfo :: "json \<Rightarrow> StandardizedShipment option" where
  "transformShipmentInfo shipmentInfo =
     (if \<not> truthy shipmentInfo then Some createEmptyShipment
      else do {
        pkgs \<leftarrow> packagesArray shipmentInfo;
        st \<leftarrow> getProp shipmentInfo ''status'';
        let statusCode = orElse (optProp st ''code'') (JStr []);
        let delivered = (statusCode = JStr ''DEL'');
        created \<leftarrow> getProp shipmentInfo ''shipmentCreated'';
        stamp \<leftarrow> (if truthy created then newDate created else Some DateNow);
        details \<leftarrow> getProp shipmentInfo ''details'';
        ps \<leftarrow> those (map transformPackage pkgs);
        Some \<lparr>shp_status = statusCode,
              shp_description = orElse (optProp st ''description'') (JStr []),
              isDelivered = delivered,
              createdDate = stamp,
              shipper = transformAddress (optProp details ''shipper''),
              receiver = transformAddress (optProp details ''receiver''),
              packages = ps\<rparr>
      })"

text \<open>The two renderings of a carrier-reported error.\<close>

definition responseErrorText :: "json \<Rightarrow> string option" where
  "responseErrorText err = do {
     c \<leftarrow> getProp err ''Code'';
     d \<leftarrow> getProp err ''Description'';
     a \<leftarrow> getProp err ''AdditionalInformation'';
     codeText \<leftarrow> toStr c;
     descText \<leftarrow> toStr d;
     infoText \<leftarrow> (if truthy a then map_option (\<lambda>t. '' - '' @ t) (toStr a) else Some []);
     Some (codeText @ '': '' @ descText @ infoText)
   }"

definition shipmentErrorText :: "json \<Rightarrow> string option" where
  "shipmentErrorText err = do {
     c \<leftarrow> getProp err ''code'';
     d \<leftarrow> getProp err ''description'';
     codeText \<leftarrow> toStr (orElse c (JStr ''ERROR''));
     descText \<leftarrow> toStr (orElse d (JStr ''Unknown error''));
     Some (codeText @ '': '' @ descText)
   }"

text \<open>
  The pieces of \<^verbatim>\<open>transformTrackingResponse\<close>, in the order of the source: the unwrapped
  result, the errors of \<^verbatim>\<open>ResponseInformation\<close>, the search results as an array and its
  first element, the shipment errors, the status with its description.
\<close>

definition soapResult :: "json \<Rightarrow> json option" where
  "soapResult soapResponse = do {
     r0 \<leftarrow> getIndex0 soapResponse;
     let wrapped = optProp r0 ''TrackingByPinsOrReferencesResult'';
     Some (if truthy wrapped then wrapped else r0)
   }"

definition errorsOf :: "(json \<Rightarrow> string option) \<Rightarrow> json \<Rightarrow> string list option" where
  "errorsOf render v =
     (case v of
        JArr xs \<Rightarrow> (if length xs > 0 then those (map render xs) else Some [])
      | _ \<Rightarrow> Some [])"

definition searchResultsArray :: "json \<Rightarrow> json list" where
  "searchResultsArray searchResults =
     (case searchResults of
        JArr xs \<Rightarrow> xs
      | _ \<Rightarrow> (let sr = optProp searchResults ''SearchResult''
              in if truthy sr then (case sr of JArr ys \<Rightarrow> ys | _ \<Rightarrow> [sr]) else []))"

definition firstOf :: "json list \<Rightarrow> json" where
  "firstOf xs = (case xs of [] \<Rightarrow> JUndefined | x # _ \<Rightarrow> x)"

definition statusOf :: "string list \<Rightarrow> json \<Rightarrow> (string \<times> string) option" where
  "statusOf errs firstResult =
     (if length errs > 0 then Some (''error'', ''Tracking request completed with errors'')
      else if \<not> truthy firstResult then Some (''not_found'', ''No search results found'')
      else do {
        st \<leftarrow> getProp firstResult ''status'';
        shp \<leftarrow> getProp firstResult ''Shipment'';
        Some (if st = JStr ''NOT_FOUND'' then (''not_found'', ''Shipment not found'')
              else if \<not> truthy shp then (''not_found'', ''No shipment information found'')
              else if st = JStr ''FOUND''
                then (''success'', ''Tracking information retrieved successfully'')
              else (''success'', ''Tracking information retrieved successfully''))
      })"

definition invalidSoapResponse :: TrackingResponse where
  "invalidSoapResponse =
     \<lparr>status = ''error'', description = ''Invalid SOAP response structure'',
      errors = [''No valid response data found in SOAP response''],
      shipment = createEmptyShipment\<rparr>"

definition transformTrackingResponse :: "json \<Rightarrow> TrackingResponse option" where
  "transformTrackingResponse soapResponse = do {
     result \<leftarrow> soapResult soapResponse;
     if \<not> truthy result then Some invalidSoapResponse
     else do {
       responseInfo \<leftarrow> getProp result ''ResponseInformation'';
       searchResults \<leftarrow> getProp result ''SearchResults'';
       if \<not> truthy responseInfo \<and> \<not> truthy searchResults then Some invalidSoapResponse
       else do {
         errs1 \<leftarrow> errorsOf responseErrorText (optProp responseInfo ''Errors'');
         let firstResult = firstOf (searchResultsArray searchResults);
         errs2 \<leftarrow> errorsOf shipmentErrorText (optProp firstResult ''shipmentErrors'');
         let errs = errs1 @ errs2;
         sd \<leftarrow> statusOf errs firstResult;
         shp \<leftarrow> transformShipmentInfo (optProp firstResult ''Shipment'');
         Some \<lparr>status = fst sd, description = snd sd, errors = errs, shipment = shp\<rparr>
       }
     }
   }"

section \<open>The UPS normalizer\<close>

text \<open>
  \<^verbatim>\<open>transformUpsResponse\<close> takes a typed payload; the records follow the interfaces the
  source declares, with the fields the transformer reads. An optional field, and a
  field the code guards with \<^verbatim>\<open>?.\<close>, \<^verbatim>\<open>!\<close> or \<^verbatim>\<open>||\<close>, is an \<open>option\<close>.
  Field names carry a prefix where two records share a name; the \<^verbatim>\<open>shipment\<close> array
  of \<^verbatim>\<open>trackResponse\<close> is \<open>upsShipments\<close>.
\<close>

record UpsStatus =
  us_code :: string
  us_description :: string

record UpsAddress =
  ua_city :: "string option"
  ua_stateProvince :: "string option"
  ua_postalCode :: "string option"
  ua_country :: "string option"
  ua_countryCode :: "string option"
  ua_addressLine1 :: "string option"
  ua_addressLine2 :: "string option"

record UpsLocation =
  ul_address :: "UpsAddress option"

record UpsActivity =
  act_date :: string
  act_time :: string
  act_status :: UpsStatus
  act_location :: "UpsLocation option"

record UpsPackageAddress =
  pa_type :: string
  pa_address :: UpsAddress

record UpsPackage =
  trackingNumber :: string
  activity :: "UpsActivity list option"
  currentStatus :: "UpsStatus option"
  packageAddress :: "UpsPackageAddress list option"

record UpsWarning =
  uw_code :: string
  uw_message :: string

record UpsShipment =
  package :: "UpsPackage list option"
  warnings :: "UpsWarning list option"

record UpsTrackResponse =
  upsShipments :: "UpsShipment list option"

record UpsTrackApiResponse =
  trackResponse :: "UpsTrackResponse option"

text \<open>\<^verbatim>\<open>s || ''\<close> on an optional string, as a canonical field.\<close>

definition strOrEmpty :: "string option \<Rightarrow> json" where
  "strOrEmpty s = (case s of None \<Rightarrow> JStr [] | Some t \<Rightarrow> JStr t)"

text \<open>\<^verbatim>\<open>a || b || ''\<close> on two optional strings.\<close>

definition firstNonEmpty :: "string option \<Rightarrow> string option \<Rightarrow> json" where
  "firstNonEmpty a b =
     (case a of
        Some t \<Rightarrow> (if t \<noteq> [] then JStr t else strOrEmpty b)
      | None \<Rightarrow> strOrEmpty b)"

text \<open>
  \<^verbatim>\<open>parseInt(s, 10)\<close>: leading white space, an optional sign, then the longest run of
  decimal digits; NaN (\<open>None\<close>) when there is no digit.
\<close>

definition isWhite :: "char \<Rightarrow> bool" where
  "isWhite c = (c \<in> set [CHR '' '', CHR 0x09, CHR 0x0A, CHR 0x0B, CHR 0x0C, CHR 0x0D])"

definition isDigit :: "char \<Rightarrow> bool" where
  "isDigit c = (c \<in> set ''0123456789'')"

definition digitsValue :: "string \<Rightarrow> nat" where
  "digitsValue ds = foldl (\<lambda>acc c. 10 * acc + (of_char c - 48)) 0 ds"

definition parseInt :: "string \<Rightarrow> int option" where
  "parseInt s =
     (let t = dropWhile isWhite s;
          neg = (case t of [] \<Rightarrow> False | c # _ \<Rightarrow> c = CHR ''-'');
          u = (case t of [] \<Rightarrow> [] | c # r \<Rightarrow> if c = CHR ''-'' \<or> c = CHR ''+'' then r else t);
          ds = takeWhile isDigit u
      in if ds = [] then None
         else Some (if neg then - int (digitsValue ds) else int (digitsValue ds)))"

definition substring :: "string \<Rightarrow> nat \<Rightarrow> nat \<Rightarrow> string" where
  "substring s a b = take (b - a) (drop a s)"

definition parseUpsDateTime :: "string \<Rightarrow> string \<Rightarrow> jsdate" where
  "parseUpsDateTime date time =
     (let year = parseInt (substring date 0 4);
          month = map_option (\<lambda>m. m - 1) (parseInt (substring date 4 6));
          day = parseInt (substring date 6 8);
          hours = parseInt (substring time 0 2);
          minutes = parseInt (substring time 2 4);
          seconds = parseInt (substring time 4 6)
      in DateLocal year month day hours minutes seconds)"

definition transformUpsLocation :: "UpsLocation option \<Rightarrow> StandardizedLocation" where
  "transformUpsLocation loc =
     (let address = Option.bind loc ul_address
      in \<lparr>address_1 = strOrEmpty (Option.bind address ua_addressLine1),
          address_2 = strOrEmpty (Option.bind address ua_addressLine2),
          loc_city = strOrEmpty (Option.bind address ua_city),
          loc_proviceState = strOrEmpty (Option.bind address ua_stateProvince),
          loc_countryCode =
            firstNonEmpty (Option.bind address ua_countryCode) (Option.bind address ua_country),
          loc_postalZipCode = strOrEmpty (Option.bind address ua_postalCode)\<rparr>)"

definition transformUpsActivity :: "UpsActivity \<Rightarrow> StandardizedEvent" where
  "transformUpsActivity a =
     \<lparr>dateTime = parseUpsDateTime (act_date a) (act_time a),
      ev_code = JStr (us_code (act_status a)),
      ev_description = JStr (us_description (act_status a)),
      location = transformUpsLocation (act_location a)\<rparr>"

definition transformUpsPackage :: "UpsPackage \<Rightarrow> StandardizedPackage" where
  "transformUpsPackage pkg =
     (let activities = (case activity pkg of None \<Rightarrow> [] | Some as \<Rightarrow> as)
      in \<lparr>pin = JStr (trackingNumber pkg),
          pkg_status = strOrEmpty (map_option us_code (currentStatus pkg)),
          pkg_description = strOrEmpty (map_option us_description (currentStatus pkg)),
          lastEvent = (case activities of
                         [] \<Rightarrow> createEmptyEvent
                       | a # _ \<Rightarrow> transformUpsActivity a)\<rparr>)"

definition transformUpsAddress :: "UpsAddress option \<Rightarrow> StandardizedAddress" where
  "transformUpsAddress address =
     \<lparr>addr_city = strOrEmpty (Option.bind address ua_city),
      addr_proviceState = strOrEmpty (Option.bind address ua_stateProvince),
      addr_countryCode =
        firstNonEmpty (Option.bind address ua_countryCode) (Option.bind address ua_country),
      addr_postalZipCode = strOrEmpty (Option.bind address ua_postalCode)\<rparr>"

definition transformUpsShipment :: "UpsPackage \<Rightarrow> UpsShipment \<Rightarrow> StandardizedShipment" where
  "transformUpsShipment pkg shp =
     (let addresses = (case packageAddress pkg of None \<Rightarrow> [] | Some as \<Rightarrow> as);
          shipperAddress = find (\<lambda>a. pa_type a = ''ORIGIN'') addresses;
          receiverAddress = find (\<lambda>a. pa_type a = ''DESTINATION'') addresses;
          activities = (case activity pkg of None \<Rightarrow> [] | Some as \<Rightarrow> as);
          created = (if length activities > 0
                     then parseUpsDateTime (act_date (last activities)) (act_time (last activities))
                     else DateNow);
          statusCode = strOrEmpty (map_option us_code (currentStatus pkg))
      in \<lparr>shp_status = statusCode,
          shp_description = strOrEmpty (map_option us_description (currentStatus pkg)),
          isDelivered = (statusCode = JStr ''011''),
          createdDate = created,
          shipper = transformUpsAddress (map_option pa_address shipperAddress),
          receiver = transformUpsAddress (map_option pa_address receiverAddress),
          packages = [transformUpsPackage pkg]\<rparr>)"

text \<open>The \<^verbatim>\<open>createErrorResponse\<close> of the UPS transformer.\<close>

definition upsErrorResponse :: "string \<Rightarrow> TrackingResponse" where
  "upsErrorResponse errorMessage =
     \<lparr>status = ''ERROR'', description = errorMessage, errors = [errorMessage],
      shipment = \<lparr>shp_status = JStr ''ERROR'', shp_description = JStr errorMessage,
                   isDelivered = False, createdDate = DateNow, shipper = emptyAddress,
                   receiver = emptyAddress, packages = []\<rparr>\<rparr>"

text \<open>
  On a payload of the declared type no statement of the \<^verbatim>\<open>try\<close> block throws, so the
  \<^verbatim>\<open>catch\<close> branch has no counterpart here.
\<close>

definition transformUpsResponse :: "UpsTrackApiResponse option \<Rightarrow> string \<Rightarrow> TrackingResponse" where
  "transformUpsResponse upsResponse trackingNumber' =
     (case Option.bind (Option.bind upsResponse trackResponse) upsShipments of
        None \<Rightarrow> upsErrorResponse ''No shipment data found in UPS response''
      | Some [] \<Rightarrow> upsErrorResponse ''No shipment data found in UPS response''
      | Some (shp # _) \<Rightarrow>
          (let pkgs = (case package shp of None \<Rightarrow> [] | Some ps \<Rightarrow> ps)
           in case pkgs of
                [] \<Rightarrow> upsErrorResponse ''No package data found in UPS response''
              | p0 # _ \<Rightarrow>
                  (let pkg = (case find (\<lambda>p. trackingNumber p = trackingNumber') pkgs of
                                Some p \<Rightarrow> p | None \<Rightarrow> p0);
                       errs = (case warnings shp of
                                 None \<Rightarrow> []
                               | Some ws \<Rightarrow> map (\<lambda>w. uw_code w @ '': '' @ uw_message w) ws);
                       desc = (case currentStatus pkg of
                                 None \<Rightarrow> ''Tracking information retrieved''
                               | Some st \<Rightarrow> if us_description st \<noteq> [] then us_description st
                                            else ''Tracking information retrieved'')
                   in \<lparr>status = (if length errs > 0 then ''warning'' else ''success''),
                       description = desc, errors = errs,
                       shipment = transformUpsShipment pkg shp\<rparr>)))"

section \<open>The carrier registry\<close>

text \<open>
  The registry's \<^verbatim>\<open>Map\<close> as the list of its entries in insertion order, which is the
  order \<^verbatim>\<open>keys()\<close> lists them in. \<^verbatim>\<open>getService\<close> throws an \<^verbatim>\<open>Error\<close>; the result is
  its message (\<open>Inl\<close>) or the service.
\<close>

fun register :: "string \<Rightarrow> 'svc \<Rightarrow> (string \<times> 'svc) list \<Rightarrow> (string \<times> 'svc) list" where
  "register carrier svc [] = [(carrier, svc)]"
| "register carrier svc ((k, v) # rest) =
     (if k = carrier then (carrier, svc) # rest else (k, v) # register carrier svc rest)"

definition trackingServiceRegistry :: "'svc \<Rightarrow> 'svc \<Rightarrow> (string \<times> 'svc) list" where
  "trackingServiceRegistry purolatorTrackingService upsTrackingService =
     register ''ups'' upsTrackingService (register ''purolator'' purolatorTrackingService [])"

definition getSupportedCarriers :: "(string \<times> 'svc) list \<Rightarrow> string list" where
  "getSupportedCarriers services = map fst services"

definition isSupported :: "(string \<times> 'svc) list \<Rightarrow> string \<Rightarrow> bool" where
  "isSupported services carrier = (map_of services carrier \<noteq> None)"

definition notImplementedMessage :: "(string \<times> 'svc) list \<Rightarrow> string \<Rightarrow> string" where
  "notImplementedMessage services carrier =
     ''Tracking service for carrier '' @ [CHR 0x22] @ carrier @ [CHR 0x22]
       @ '' is not implemented. '' @ ''Supported carriers: ''
       @ joinWith '', '' (getSupportedCarriers services)"

definition getService :: "(string \<times> 'svc) list \<Rightarrow> string \<Rightarrow> string + 'svc" where
  "getService services carrier =
     (case map_of services carrier of
        None \<Rightarrow> Inl (notImplementedMessage services carrier)
      | Some svc \<Rightarrow> Inr svc)"

section \<open>The reconciliation scheduler\<close>

text \<open>
  What a carrier call or a store call can throw: an \<^verbatim>\<open>Error\<close> with its message, or any
  other value. A tracking service is its \<^verbatim>\<open>trackStandardized\<close> on one tracking number:
  it throws or returns a response.
\<close>

datatype thrown = ErrorObj string | NonError

definition errorMessageOf :: "thrown \<Rightarrow> string" where
  "errorMessageOf t = (case t of ErrorObj m \<Rightarrow> m | NonError \<Rightarrow> ''Unknown error'')"

type_synonym trackingService = "string \<Rightarrow> thrown + TrackingResponse"

text \<open>
  The world a pass runs in: the collection, the clock, and the outcomes of the coming
  store calls (\<open>Some m\<close>: the call throws an \<^verbatim>\<open>Error\<close> with message \<open>m\<close>; past the end
  of the list every call succeeds). The clock advances in \<^verbatim>\<open>delay\<close> only.
\<close>

record World =
  documents :: store
  clock :: int
  dbFaults :: "string option list"

definition dbCall :: "(int \<Rightarrow> store \<Rightarrow> 'a \<times> store) \<Rightarrow> World \<Rightarrow> (thrown + 'a) \<times> World" where
  "dbCall operation w =
     (case dbFaults w of
        Some m # rest \<Rightarrow> (Inl (ErrorObj m), w\<lparr>dbFaults := rest\<rparr>)
      | _ \<Rightarrow> (case operation (clock w) (documents w) of
               (r, docs) \<Rightarrow> (Inr r, w\<lparr>documents := docs, dbFaults := tl (dbFaults w)\<rparr>)))"

text \<open>The state of the \<^verbatim>\<open>for\<close> loop: the world and the two counters of the pass.\<close>

record PassState =
  world :: World
  passSuccessCount :: nat
  passErrorCount :: nat

definition delay :: "int \<Rightarrow> PassState \<Rightarrow> PassState" where
  "delay ms st = st\<lparr>world := (world st)\<lparr>clock := clock (world st) + ms\<rparr>\<rparr>"

text \<open>The inner \<^verbatim>\<open>try\<close> block for one shipment: \<open>Some t\<close> when it throws \<open>t\<close>.\<close>

definition tryUpdate ::
  "(string \<times> trackingService) list \<Rightarrow> string \<Rightarrow> string \<Rightarrow> PassState \<Rightarrow> thrown option \<times> PassState" where
  "tryUpdate services tn sv st =
     (case getService services sv of
        Inl m \<Rightarrow> (Some (ErrorObj m), st)
      | Inr trackingService \<Rightarrow>
          (case trackingService tn of
             Inl t \<Rightarrow> (Some t, st)
           | Inr trackingResult \<Rightarrow>
               (if status trackingResult = ''error'' then
                  (case dbCall (\<lambda>now. recordError now tn sv (joinWith '', '' (errors trackingResult)))
                          (world st) of
                     (Inl t, w) \<Rightarrow> (Some t, st\<lparr>world := w\<rparr>)
                   | (Inr r, w) \<Rightarrow>
                       (None, delay 500 (st\<lparr>world := w, passErrorCount := passErrorCount st + 1\<rparr>)))
                else
                  (case dbCall (\<lambda>now. updateTrackingResponse now tn sv trackingResult) (world st) of
                     (Inl t, w) \<Rightarrow> (Some t, st\<lparr>world := w\<rparr>)
                   | (Inr r, w) \<Rightarrow>
                       (None, delay 500 (st\<lparr>world := w, passSuccessCount := passSuccessCount st + 1\<rparr>))))))"

text \<open>
  The body of the loop: the \<^verbatim>\<open>continue\<close> for an unsupported carrier, the \<^verbatim>\<open>try\<close> block
  and its \<^verbatim>\<open>catch\<close>. \<open>Some t\<close> when the \<^verbatim>\<open>catch\<close> block itself throws \<open>t\<close>, which leaves
  the loop.
\<close>

definition updateShipment ::
  "(string \<times> trackingService) list \<Rightarrow> string \<times> string \<Rightarrow> PassState \<Rightarrow> thrown option \<times> PassState" where
  "updateShipment services key st =
     (case key of (tn, sv) \<Rightarrow>
        if \<not> isSupported services sv then (None, st)
        else
          (case tryUpdate services tn sv st of
             (None, st1) \<Rightarrow> (None, st1)
           | (Some t, st1) \<Rightarrow>
               (let st2 = st1\<lparr>passErrorCount := passErrorCount st1 + 1\<rparr>
                in case dbCall (\<lambda>now. recordError now tn sv (errorMessageOf t)) (world st2) of
                     (Inl t2, w) \<Rightarrow> (Some t2, st2\<lparr>world := w\<rparr>)
                   | (Inr r, w) \<Rightarrow> (None, st2\<lparr>world := w\<rparr>))))"

fun forEachShipment ::
  "(string \<times> trackingService) list \<Rightarrow> (string \<times> string) list \<Rightarrow> PassState \<Rightarrow> thrown option \<times> PassState" where
  "forEachShipment services [] st = (None, st)"
| "forEachShipment services (key # rest) st =
     (case updateShipment services key st of
        (Some t, st1) \<Rightarrow> (Some t, st1)
      | (None, st1) \<Rightarrow> forEachShipment services rest st1)"

text \<open>The outer \<^verbatim>\<open>try\<close> block of \<^verbatim>\<open>updateTrackedShipments\<close>.\<close>

definition passBody :: "(string \<times> trackingService) list \<Rightarrow> World \<Rightarrow> thrown option \<times> World" where
  "passBody services w =
     (case dbCall (\<lambda>now docs. (getShipmentsNeedingUpdate now 15 docs, docs)) w of
        (Inl t, w1) \<Rightarrow> (Some t, w1)
      | (Inr shipmentsToUpdate, w1) \<Rightarrow>
          (if length shipmentsToUpdate = 0 then (None, w1)
           else (case forEachShipment services shipmentsToUpdate
                        \<lparr>world = w1, passSuccessCount = 0, passErrorCount = 0\<rparr> of
                   (r, st) \<Rightarrow> (r, world st))))"

record TrackingCronService =
  cronJob :: bool
  isRunning :: bool

text \<open>
  \<^verbatim>\<open>updateTrackedShipments\<close>, run to its end: the guard, the \<^verbatim>\<open>try\<close> block, the
  \<^verbatim>\<open>catch\<close> that only logs, the \<^verbatim>\<open>finally\<close>.
\<close>

definition updateTrackedShipments ::
  "(string \<times> trackingService) list \<Rightarrow> TrackingCronService \<times> World \<Rightarrow> TrackingCronService \<times> World" where
  "updateTrackedShipments services cw =
     (case cw of (cron, w) \<Rightarrow>
        if isRunning cron then (cron, w)
        else
          (let cron1 = cron\<lparr>isRunning := True\<rparr>
           in case passBody services w of
                (r, w1) \<Rightarrow> (cron1\<lparr>isRunning := False\<rparr>, w1)))"

definition triggerUpdate ::
  "(string \<times> trackingService) list \<Rightarrow> TrackingCronService \<times> World \<Rightarrow> TrackingCronService \<times> World" where
  "triggerUpdate services cw = updateTrackedShipments services cw"

text \<open>
  The same method with its suspension made visible. Between two \<^verbatim>\<open>await\<close>s the code
  runs without interruption, so a call is two steps: \<open>Invoke\<close> runs the guard and, if it
  passes, sets the flag and enters the \<^verbatim>\<open>try\<close> block; \<open>Settle\<close> is the end of a \<^verbatim>\<open>try\<close>
  block, by return or by throw, followed by the \<^verbatim>\<open>finally\<close>. \<open>inTry\<close> counts the calls
  that are inside their \<^verbatim>\<open>try\<close> block.
\<close>

datatype passEvent = Invoke | Settle bool

record Scheduler = TrackingCronService +
  inTry :: nat

fun schedulerStep :: "passEvent \<Rightarrow> Scheduler \<Rightarrow> Scheduler" where
  "schedulerStep Invoke s =
     (if isRunning s then s else s\<lparr>isRunning := True, inTry := inTry s + 1\<rparr>)"
| "schedulerStep (Settle threw) s =
     (if inTry s = 0 then s else s\<lparr>isRunning := False, inTry := inTry s - 1\<rparr>)"

definition runEvents :: "passEvent list \<Rightarrow> Scheduler \<Rightarrow> Scheduler" where
  "runEvents evs s = fold schedulerStep evs s"

definition idleScheduler :: Scheduler where
  "idleScheduler = \<lparr>cronJob = True, isRunning = False, inTry = 0\<rparr>"

section \<open>Notions used by the properties\<close>

text \<open>Two states of the collection that differ at most in \<open>lastUpdated\<close> stamps.\<close>

definition sameButLastUpdated :: "store \<Rightarrow> store \<Rightarrow> bool" where
  "sameButLastUpdated a b =
     (map (\<lambda>d. d\<lparr>lastUpdated := 0\<rparr>) a = map (\<lambda>d. d\<lparr>lastUpdated := 0\<rparr>) b)"

text \<open>
  Consecutive \<^verbatim>\<open>recordError\<close> calls for one key, each with its time and its message,
  and nothing in between.
\<close>

definition recordErrors :: "(int \<times> string) list \<Rightarrow> string \<Rightarrow> string \<Rightarrow> store \<Rightarrow> store" where
  "recordErrors calls tn sv db =
     fold (\<lambda>c docs. snd (recordError (fst c) tn sv (snd c) docs)) calls db"

text \<open>
  The first search result of a payload, as \<^verbatim>\<open>transformTrackingResponse\<close> finds it
  (\<^verbatim>\<open>undefined\<close> when there is none).
\<close>

definition firstSearchResult :: "json \<Rightarrow> json" where
  "firstSearchResult soapResponse =
     (case soapResult soapResponse of
        None \<Rightarrow> JUndefined
      | Some result \<Rightarrow> firstOf (searchResultsArray (optProp result ''SearchResults'')))"

text \<open>
  The packages and the warnings of the first shipment of a UPS payload, empty when the
  payload has no shipment.
\<close>

definition upsPackages :: "UpsTrackApiResponse option \<Rightarrow> UpsPackage list" where
  "upsPackages upsResponse =
     (case Option.bind (Option.bind upsResponse trackResponse) upsShipments of
        Some (shp # rest) \<Rightarrow> (case package shp of None \<Rightarrow> [] | Some ps \<Rightarrow> ps)
      | _ \<Rightarrow> [])"

definition upsWarnings :: "UpsTrackApiResponse option \<Rightarrow> UpsWarning list" where
  "upsWarnings upsResponse =
     (case Option.bind (Option.bind upsResponse trackResponse) upsShipments of
        Some (shp # rest) \<Rightarrow> (case warnings shp of None \<Rightarrow> [] | Some ws \<Rightarrow> ws)
      | _ \<Rightarrow> [])"

text \<open>
  A reading of an event's time: the digits of its date and time as one number, which
  orders the fixed-width stamps of both carriers chronologically.
\<close>

definition stampOf :: "json \<Rightarrow> int" where
  "stampOf event =
     (case optProp event ''dateTime'' of
        JStr s \<Rightarrow> int (digitsValue (filter isDigit s))
      | _ \<Rightarrow> 0)"

definition upsStampOf :: "UpsActivity \<Rightarrow> int" where
  "upsStampOf a = int (digitsValue (filter isDigit (act_date a @ act_time a)))"

text \<open>
  A value has a text form unless it is an object with an own property named
  \<^verbatim>\<open>toString\<close>, or an array that holds such an object at some depth.
\<close>

fun hasText :: "json \<Rightarrow> bool" where
  "hasText (JObj kvs) = (map_of kvs ''toString'' = None)"
| "hasText (JArr xs) = list_all hasText xs"
| "hasText j = True"

text \<open>The entries of a value that is an array; none for any other value.\<close>

definition arrayEntries :: "json \<Rightarrow> json list" where
  "arrayEntries v = (case v of JArr xs \<Rightarrow> xs | _ \<Rightarrow> [])"

text \<open>
  The parts of a payload that \<^verbatim>\<open>transformTrackingResponse\<close> walks through: the errors
  of \<^verbatim>\<open>ResponseInformation\<close> and of the first search result, the packages of a
  shipment and the events of a package, the last two as the transformer collects them
  (none when it cannot).
\<close>

definition responseErrors :: "json \<Rightarrow> json list" where
  "responseErrors soapResponse =
     (case soapResult soapResponse of
        None \<Rightarrow> []
      | Some result \<Rightarrow> arrayEntries (optProp (optProp result ''ResponseInformation'') ''Errors''))"

definition shipmentErrors :: "json \<Rightarrow> json list" where
  "shipmentErrors soapResponse =
     arrayEntries (optProp (firstSearchResult soapResponse) ''shipmentErrors'')"

definition packagesOf :: "json \<Rightarrow> json list" where
  "packagesOf shipmentInfo = (case packagesArray shipmentInfo of None \<Rightarrow> [] | Some pkgs \<Rightarrow> pkgs)"

definition eventsOf :: "json \<Rightarrow> json list" where
  "eventsOf pkg = (case eventsArray pkg of None \<Rightarrow> [] | Some evs \<Rightarrow> evs)"

text \<open>
  What the transformer needs of a payload. An entry of either errors array is not
  \<^verbatim>\<open>null\<close> or \<^verbatim>\<open>undefined\<close> and the properties rendered into the error text have a
  text form. A package is not \<^verbatim>\<open>null\<close> or \<^verbatim>\<open>undefined\<close> and the time of its first
  event has a text form. The creation time of a shipment has a text form and each of its
  packages is as said. The payload itself is not \<^verbatim>\<open>null\<close> or \<^verbatim>\<open>undefined\<close>, and
  its errors and the shipment of its first search result are as said.
\<close>

definition responseErrorOk :: "json \<Rightarrow> bool" where
  "responseErrorOk err =
     (\<not> nullish err \<and> hasText (optProp err ''Code'') \<and> hasText (optProp err ''Description'')
      \<and> hasText (optProp err ''AdditionalInformation''))"

definition shipmentErrorOk :: "json \<Rightarrow> bool" where
  "shipmentErrorOk err =
     (\<not> nullish err \<and> hasText (optProp err ''code'') \<and> hasText (optProp err ''description''))"

definition packageOk :: "json \<Rightarrow> bool" where
  "packageOk pkg = (\<not> nullish pkg \<and> hasText (optProp (firstOf (eventsOf pkg)) ''dateTime''))"

definition shipmentOk :: "json \<Rightarrow> bool" where
  "shipmentOk shipmentInfo =
     (hasText (optProp shipmentInfo ''shipmentCreated'')
      \<and> list_all packageOk (packagesOf shipmentInfo))"

definition transformable :: "json \<Rightarrow> bool" where
  "transformable soapResponse =
     (\<not> nullish soapResponse
      \<and> list_all responseErrorOk (responseErrors soapResponse)
      \<and> list_all shipmentErrorOk (shipmentErrors soapResponse)
      \<and> shipmentOk (optProp (firstSearchResult soapResponse) ''Shipment''))"

text \<open>
  A property of the carrier's values for all address fields and all event location
  fields of a shipment: the fields of the shipper and of the receiver, and those of the
  location of the first event of each package.
\<close>

definition addressSource :: "(json \<Rightarrow> bool) \<Rightarrow> json \<Rightarrow> bool" where
  "addressSource S address =
     (S (optProp address ''city'') \<and> S (optProp address ''provinceState'')
      \<and> S (optProp address ''countryCode'') \<and> S (optProp address ''postalZipCode''))"

definition locationSource :: "(json \<Rightarrow> bool) \<Rightarrow> json \<Rightarrow> bool" where
  "locationSource S loc =
     (S (optProp loc ''StreetAddress1'') \<and> S (optProp loc ''StreetAddress2'')
      \<and> S (optProp loc ''City'') \<and> S (optProp loc ''provinceState'')
      \<and> S (optProp loc ''CountryCode'') \<and> S (optProp loc ''PostalCode''))"

definition shipmentSource :: "(json \<Rightarrow> bool) \<Rightarrow> json \<Rightarrow> bool" where
  "shipmentSource S shipmentInfo =
     (addressSource S (optProp (optProp shipmentInfo ''details'') ''shipper'')
      \<and> addressSource S (optProp (optProp shipmentInfo ''details'') ''receiver'')
      \<and> list_all (\<lambda>pkg. locationSource S (optProp (firstOf (eventsOf pkg)) ''location''))
           (packagesOf shipmentInfo))"

text \<open>A string, or a falsy value (\<^verbatim>\<open>null\<close>, absent, empty), which \<^verbatim>\<open>|| ''\<close> replaces.\<close>

definition textOrFalsy :: "json \<Rightarrow> bool" where
  "textOrFalsy v = (isString v \<or> \<not> truthy v)"

text \<open>
  A property of all address fields and all event location fields of a normalized
  shipment.
\<close>

definition addressAll :: "(json \<Rightarrow> bool) \<Rightarrow> StandardizedAddress \<Rightarrow> bool" where
  "addressAll P a =
     (P (addr_city a) \<and> P (addr_proviceState a) \<and> P (addr_countryCode a)
      \<and> P (addr_postalZipCode a))"

definition locationAll :: "(json \<Rightarrow> bool) \<Rightarrow> StandardizedLocation \<Rightarrow> bool" where
  "locationAll P l =
     (P (address_1 l) \<and> P (address_2 l) \<and> P (loc_city l) \<and> P (loc_proviceState l)
      \<and> P (loc_countryCode l) \<and> P (loc_postalZipCode l))"

definition shipmentAll :: "(json \<Rightarrow> bool) \<Rightarrow> StandardizedShipment \<Rightarrow> bool" where
  "shipmentAll P s =
     (addressAll P (shipper s) \<and> addressAll P (receiver s)
      \<and> list_all (\<lambda>p. locationAll P (location (lastEvent p))) (packages s))"

section \<open>Sample data\<close>

text \<open>
  Stored records, services, worlds and payloads for the examples; the payloads follow
  the shapes of the transformer's test suite.
\<close>

definition sampleResponse :: TrackingResponse where
  "sampleResponse =
     \<lparr>status = ''success'', description = ''Tracking information retrieved successfully'',
      errors = [], shipment = createEmptyShipment\<rparr>"

definition sampleDoc :: TrackedShipment where
  "sampleDoc =
     \<lparr>trackingNo = ''329702318141'', service = ''purolator'',
      trackingResponse = sampleResponse, lastUpdated = 0, isActive = True,
      errorCount = 0, lastError = None\<rparr>"

definition tenErrors :: "(int \<times> string) list" where
  "tenErrors = map (\<lambda>i. (int i, ''timeout'')) [1..<11]"

definition staleDoc :: TrackedShipment where
  "staleDoc = sampleDoc\<lparr>trackingNo := ''OLD'', lastUpdated := 1000\<rparr>"

definition freshDoc :: TrackedShipment where
  "freshDoc = sampleDoc\<lparr>trackingNo := ''FRESH'', lastUpdated := 900000\<rparr>"

definition olderDoc :: TrackedShipment where
  "olderDoc = sampleDoc\<lparr>trackingNo := ''OLDER'', service := ''ups'', lastUpdated := 500\<rparr>"

definition deliveredDoc :: TrackedShipment where
  "deliveredDoc = sampleDoc\<lparr>trackingNo := ''DONE'', lastUpdated := 10,
      trackingResponse := sampleResponse\<lparr>shipment := createEmptyShipment\<lparr>isDelivered := True\<rparr>\<rparr>\<rparr>"

definition inactiveDoc :: TrackedShipment where
  "inactiveDoc = sampleDoc\<lparr>isActive := False, errorCount := 3, lastError := Some ''timeout''\<rparr>"

definition failingService :: trackingService where
  "failingService tn = Inl (ErrorObj ''ETIMEDOUT'')"

definition answeringService :: trackingService where
  "answeringService tn = Inr sampleResponse"

definition sampleServices :: "(string \<times> trackingService) list" where
  "sampleServices = trackingServiceRegistry failingService answeringService"

definition upsDoc :: TrackedShipment where
  "upsDoc = sampleDoc\<lparr>trackingNo := ''1Z999'', service := ''ups'', lastUpdated := 5\<rparr>"

definition sampleWorld :: World where
  "sampleWorld = \<lparr>documents = [sampleDoc, upsDoc], clock = 1000000, dbFaults = []\<rparr>"

definition brokenWorld :: World where
  "brokenWorld = sampleWorld\<lparr>dbFaults := [Some ''connection lost'']\<rparr>"

definition idleCron :: TrackingCronService where
  "idleCron = \<lparr>cronJob = True, isRunning = False\<rparr>"

definition startState :: PassState where
  "startState = \<lparr>world = sampleWorld, passSuccessCount = 0, passErrorCount = 0\<rparr>"

definition upsNotFound :: TrackingResponse where
  "upsNotFound =
     \<lparr>status = ''ERROR'', description = ''Tracking number not found'',
      errors = [''The tracking number was not found in UPS system''],
      shipment = \<lparr>shp_status = JStr ''ERROR'',
                   shp_description = JStr ''Tracking number not found'',
                   isDelivered = False, createdDate = DateNow, shipper = emptyAddress,
                   receiver = emptyAddress, packages = []\<rparr>\<rparr>"

definition notFoundServices :: "(string \<times> trackingService) list" where
  "notFoundServices = trackingServiceRegistry answeringService (\<lambda>tn. Inr upsNotFound)"

definition upsTroubledDoc :: TrackedShipment where
  "upsTroubledDoc = upsDoc\<lparr>errorCount := 3, lastError := Some ''UPS API error: HTTP 500''\<rparr>"

definition notFoundSoap :: json where
  "notFoundSoap =
     JArr [JObj [(''TrackingByPinsOrReferencesResult'', JObj [
       (''ResponseInformation'', JObj [(''Errors'', JArr [])]),
       (''SearchResults'', JArr [JObj [
          (''trackingId'', JStr ''999999999999''), (''status'', JStr ''NOT_FOUND''),
          (''type'', JStr ''PIN''), (''shipmentErrors'', JArr []), (''Shipment'', JNull)]])])]]"

definition authErrorSoap :: json where
  "authErrorSoap =
     JArr [JObj [(''TrackingByPinsOrReferencesResult'', JObj [
       (''ResponseInformation'', JObj [(''Errors'', JArr [JObj [
          (''Code'', JStr ''AUTH_ERROR''), (''Description'', JStr ''Authentication failed'')]])]),
       (''SearchResults'', JArr [])])]]"

definition warnedUps :: UpsTrackApiResponse where
  "warnedUps =
     \<lparr>trackResponse = Some \<lparr>upsShipments = Some [
        \<lparr>package = Some [\<lparr>trackingNumber = ''1Z999'', activity = None, currentStatus = None,
                           packageAddress = None\<rparr>],
         warnings = Some [\<lparr>uw_code = ''TW0001'', uw_message = ''Tracking Information Not Found''\<rparr>]\<rparr>]\<rparr>\<rparr>"

definition sampleEvent :: "string \<Rightarrow> string \<Rightarrow> json" where
  "sampleEvent t c =
     JObj [(''dateTime'', JStr t), (''code'', JStr c), (''description'', JStr ''Scan''),
           (''location'', JObj [(''City'', JStr ''MISSISSAUGA''), (''StreetAddress1'', JNull)])]"

definition packageOf :: "json list \<Rightarrow> json" where
  "packageOf evs =
     JObj [(''pin'', JStr ''329702318141''),
           (''status'', JObj [(''code'', JStr ''ATT''), (''description'', JStr ''Attention'')]),
           (''events'', JObj [(''event'', JArr evs)])]"

definition unorderedEvents :: "json list" where
  "unorderedEvents =
     [sampleEvent ''2022-11-15 16:52:16'' ''9310'',
      sampleEvent ''2022-11-17 10:48:28'' ''2300'',
      sampleEvent ''2022-11-14 13:26:33'' ''3010'']"

definition oldestFirstEvents :: "json list" where
  "oldestFirstEvents =
     [sampleEvent ''2022-11-14 13:26:33'' ''3010'',
      sampleEvent ''2022-11-15 16:52:16'' ''9310'',
      sampleEvent ''2022-11-17 10:48:28'' ''2300'']"

definition sampleActivity :: "string \<Rightarrow> string \<Rightarrow> string \<Rightarrow> UpsActivity" where
  "sampleActivity d t c =
     \<lparr>act_date = d, act_time = t, act_status = \<lparr>us_code = c, us_description = ''Scan''\<rparr>,
      act_location = None\<rparr>"

definition unorderedUpsPackage :: UpsPackage where
  "unorderedUpsPackage =
     \<lparr>trackingNumber = ''1Z999'',
      activity = Some [sampleActivity ''20221115'' ''165216'' ''9310'',
                       sampleActivity ''20221117'' ''104828'' ''2300'',
                       sampleActivity ''20221114'' ''132633'' ''3010''],
      currentStatus = None, packageAddress = None\<rparr>"

definition soapWithShipment :: "json \<Rightarrow> json" where
  "soapWithShipment shipmentInfo =
     JArr [JObj [(''TrackingByPinsOrReferencesResult'', JObj [
       (''ResponseInformation'', JObj [(''Errors'', JArr []), (''InformationalMessages'', JNull)]),
       (''SearchResults'', JArr [JObj [
          (''trackingId'', JStr ''335702383951''), (''status'', JStr ''FOUND''),
          (''shipmentErrors'', JArr []), (''Shipment'', shipmentInfo)]])])]]"

definition partialShipment :: json where
  "partialShipment =
     JObj [(''shipmentPin'', JStr ''329702318141''),
           (''status'', JObj [(''code'', JStr ''INT'')]),
           (''details'', JObj [
              (''receiver'', JObj [(''city'', JNull), (''provinceState'', JStr ''ON''),
                                  (''countryCode'', JNull)])]),
           (''packages'', JObj [(''package'', JObj [
              (''pin'', JStr ''329702318141''),
              (''events'', JObj [(''event'', JObj [
                 (''code'', JStr ''2300''),
                 (''location'', JObj [(''StreetAddress1'', JNull), (''City'', JStr ''TORONTO'')])])])])])]"

definition nullPackageShipment :: json where
  "nullPackageShipment = JObj [(''shipmentPin'', JStr ''329702318141''), (''packages'', JArr [JNull])]"

definition numericCityShipment :: json where
  "numericCityShipment =
     JObj [(''shipmentPin'', JStr ''329702318141''),
           (''details'', JObj [(''shipper'', JObj [(''city'', JNum ''42'')])])]"

definition nullResultSoap :: json where
  "nullResultSoap = JArr [JObj [(''SearchResults'', JArr [JNull])]]"

definition nullEventShipment :: json where
  "nullEventShipment =
     JObj [(''shipmentPin'', JStr ''329702318141''),
           (''packages'', JArr [JObj [(''pin'', JStr ''329702318141''),
                                      (''events'', JArr [JNull])]])]"

definition nullErrorSoap :: json where
  "nullErrorSoap = JArr [JObj [(''ResponseInformation'', JObj [(''Errors'', JArr [JNull])])]]"

definition noTextErrorSoap :: json where
  "noTextErrorSoap =
     JArr [JObj [(''ResponseInformation'', JObj [(''Errors'', JArr [JObj [
       (''Code'', JObj [(''toString'', JStr ''x'')]), (''Description'', JStr ''d'')]])])]]"

definition noTextDateShipment :: json where
  "noTextDateShipment =
     JObj [(''shipmentPin'', JStr ''329702318141''),
           (''shipmentCreated'', JObj [(''toString'', JStr ''x'')])]"

section \<open>The tracking store: lemmas\<close>

lemma findOne_hasKey: "findOne db tn sv = Some d \<Longrightarrow> hasKey tn sv d"
  unfolding findOne_def by (induction db) (auto split: if_splits)

lemma findOne_mem: "findOne db tn sv = Some d \<Longrightarrow> d \<in> set db"
  unfolding findOne_def by (induction db) (auto split: if_splits)

lemma findOne_None: "findOne db tn sv = None \<longleftrightarrow> (\<forall>x\<in>set db. \<not> hasKey tn sv x)"
  unfolding findOne_def by (induction db) auto

lemma length_save: "length (save tn sv d db) = length db"
  by (induction db) auto

lemma findOne_save:
  "hasKey tn sv d \<Longrightarrow> findOne db tn sv = Some e \<Longrightarrow> findOne (save tn sv d db) tn sv = Some d"
  unfolding findOne_def by (induction db) (auto split: if_splits)

lemma findOne_append_new:
  "hasKey tn sv d \<Longrightarrow> findOne db tn sv = None \<Longrightarrow> findOne (db @ [d]) tn sv = Some d"
  unfolding findOne_def by (induction db) (auto split: if_splits)

lemma count_save:
  "hasKey tn sv d \<Longrightarrow>
   length (filter (hasKey tn sv) (save tn sv d db)) = length (filter (hasKey tn sv) db)"
  by (induction db) auto

lemma map_erase_save:
  "findOne db tn sv = Some e \<Longrightarrow> d\<lparr>lastUpdated := 0\<rparr> = e\<lparr>lastUpdated := 0\<rparr> \<Longrightarrow>
   map (\<lambda>d. d\<lparr>lastUpdated := 0\<rparr>) (save tn sv d db) = map (\<lambda>d. d\<lparr>lastUpdated := 0\<rparr>) db"
  unfolding findOne_def by (induction db) (auto split: if_splits)

lemma map_sel_save:
  "findOne db tn sv = Some e \<Longrightarrow> f d = f e \<Longrightarrow> map f (save tn sv d db) = map f db"
  unfolding findOne_def by (induction db) (auto split: if_splits)

lemma others_save: "\<not> hasKey tn sv x \<Longrightarrow> x \<in> set db \<Longrightarrow> x \<in> set (save tn sv d db)"
  by (induction db) auto

lemma recordErrors_doc:
  "findOne db tn sv = Some d \<Longrightarrow>
   findOne (recordErrors calls tn sv db) tn sv
     = Some (fold (\<lambda>c. recordErrorDoc (fst c) (snd c)) calls d)"
proof (induction calls arbitrary: db d)
  case Nil
  then show ?case by (simp add: recordErrors_def)
next
  case (Cons c cs)
  have k: "hasKey tn sv (recordErrorDoc (fst c) (snd c) d)"
    using findOne_hasKey[OF Cons.prems] by (simp add: recordErrorDoc_def hasKey_def Let_def)
  have "findOne (snd (recordError (fst c) tn sv (snd c) db)) tn sv
          = Some (recordErrorDoc (fst c) (snd c) d)"
    using Cons.prems k by (simp add: recordError_def Let_def findOne_save)
  from Cons.IH[OF this] show ?case by (simp add: recordErrors_def)
qed

lemma fold_recordErrorDoc:
  "errorCount (fold (\<lambda>c. recordErrorDoc (fst c) (snd c)) calls d) = errorCount d + length calls
   \<and> (calls \<noteq> [] \<longrightarrow> isActive (fold (\<lambda>c. recordErrorDoc (fst c) (snd c)) calls d)
                       = (isActive d \<and> errorCount d + length calls < 10))
   \<and> (calls \<noteq> [] \<longrightarrow> lastError (fold (\<lambda>c. recordErrorDoc (fst c) (snd c)) calls d)
                       = Some (snd (last calls)))"
proof (induction calls arbitrary: d)
  case Nil
  then show ?case by simp
next
  case (Cons c cs)
  show ?case using Cons.IH[of "recordErrorDoc (fst c) (snd c) d"]
    by (cases "cs = []") (auto simp: recordErrorDoc_def Let_def)
qed

lemma tenErrors_eval:
  "recordErrors tenErrors ''329702318141'' ''purolator'' [sampleDoc]
     = [sampleDoc\<lparr>errorCount := 10, lastError := Some ''timeout'', lastUpdated := 10,
                  isActive := False\<rparr>]"
  by (simp add: tenErrors_def recordErrors_def recordError_def findOne_def hasKey_def
      sampleDoc_def recordErrorDoc_def Let_def upt_rec)

section \<open>The tracking store: properties\<close>

text \<open>
  C3, as the code has it. Take a record that exists for the key. After any run of
  consecutive \<^verbatim>\<open>recordError\<close> calls its error count has grown by the number of calls
  (so it equals that number for a record that started at zero), its last error is the
  last message, and from the first call on it is active exactly if it was active before
  and the count is still below 10: the call that brings the count to 10 is the one
  that stores \<open>isActive = False\<close>. An upsert after that sets the count to 0, clears the
  last error, and leaves \<open>isActive\<close> as it found it, whatever had cleared it.
\<close>

theorem recordError_count_then_upsert:
  assumes "findOne db tn sv = Some d"
  shows "\<exists>d'. findOne (recordErrors calls tn sv db) tn sv = Some d'
     \<and> errorCount d' = errorCount d + length calls
     \<and> (calls \<noteq> [] \<longrightarrow> isActive d' = (isActive d \<and> errorCount d + length calls < 10))
     \<and> (calls \<noteq> [] \<longrightarrow> lastError d' = Some (snd (last calls)))
     \<and> errorCount (fst (findOrCreate now tn sv resp (recordErrors calls tn sv db))) = 0
     \<and> lastError (fst (findOrCreate now tn sv resp (recordErrors calls tn sv db))) = None
     \<and> isActive (fst (findOrCreate now tn sv resp (recordErrors calls tn sv db))) = isActive d'
     \<and> findOne (snd (findOrCreate now tn sv resp (recordErrors calls tn sv db))) tn sv
         = Some (fst (findOrCreate now tn sv resp (recordErrors calls tn sv db)))"
proof -
  let ?d' = "fold (\<lambda>c. recordErrorDoc (fst c) (snd c)) calls d"
  let ?db' = "recordErrors calls tn sv db"
  have f: "findOne ?db' tn sv = Some ?d'" using assms by (rule recordErrors_doc)
  have k: "hasKey tn sv ?d'" using f by (rule findOne_hasKey)
  have u: "fst (findOrCreate now tn sv resp ?db')
             = ?d'\<lparr>trackingResponse := resp, lastUpdated := now, errorCount := 0,
                   lastError := None\<rparr>"
    and s: "snd (findOrCreate now tn sv resp ?db')
             = save tn sv (fst (findOrCreate now tn sv resp ?db')) ?db'"
    using f by (simp_all add: findOrCreate_def Let_def)
  have k2: "hasKey tn sv (fst (findOrCreate now tn sv resp ?db'))"
    using k unfolding u by (simp add: hasKey_def)
  have "findOne (snd (findOrCreate now tn sv resp ?db')) tn sv
          = Some (fst (findOrCreate now tn sv resp ?db'))"
    unfolding s using k2 f by (rule findOne_save)
  then show ?thesis using f fold_recordErrorDoc[of calls d] u by auto
qed

theorem recordError_count_then_upsert_witness:
  "findOne [sampleDoc] ''329702318141'' ''purolator'' = Some sampleDoc
   \<and> (\<exists>d'. findOne (recordErrors tenErrors ''329702318141'' ''purolator'' [sampleDoc])
              ''329702318141'' ''purolator'' = Some d'
        \<and> errorCount d' = 10 \<and> isActive d' = False
        \<and> isActive (fst (findOrCreate 11 ''329702318141'' ''purolator'' sampleResponse
             (recordErrors tenErrors ''329702318141'' ''purolator'' [sampleDoc]))) = False)"
proof -
  have h: "findOne [sampleDoc] ''329702318141'' ''purolator'' = Some sampleDoc"
    by (simp add: findOne_def hasKey_def sampleDoc_def)
  have n: "tenErrors \<noteq> []" "length tenErrors = 10" by (simp_all add: tenErrors_def)
  from recordError_count_then_upsert[OF h, of tenErrors 11 sampleResponse] n h
  show ?thesis by (auto simp: sampleDoc_def)
qed

text \<open>
  C3 as stated fails in its last part: a record that ten consecutive errors have
  deactivated is still inactive after the next upsert.
\<close>

theorem upsert_reactivates_counterexample:
  "isActive sampleDoc
   \<and> errorCount (the (findOne (recordErrors tenErrors ''329702318141'' ''purolator'' [sampleDoc])
        ''329702318141'' ''purolator'')) = 10
   \<and> isActive (the (findOne (recordErrors tenErrors ''329702318141'' ''purolator'' [sampleDoc])
        ''329702318141'' ''purolator'')) = False
   \<and> isActive (fst (findOrCreate 11 ''329702318141'' ''purolator'' sampleResponse
        (recordErrors tenErrors ''329702318141'' ''purolator'' [sampleDoc]))) = False"
  unfolding tenErrors_eval
  by (simp add: findOne_def hasKey_def findOrCreate_def sampleDoc_def Let_def)

lemma sample_stale_eval:
  "staleDocuments 1000000 15 [staleDoc, freshDoc, deliveredDoc, olderDoc] = [olderDoc, staleDoc]"
  by (simp add: staleDocuments_def needsUpdate_def staleDoc_def freshDoc_def deliveredDoc_def
      olderDoc_def sampleDoc_def sampleResponse_def createEmptyShipment_def Let_def)

text \<open>
  C5. Whatever the collection and the cutoff, the keys \<^verbatim>\<open>getShipmentsNeedingUpdate\<close>
  returns are the tracking number and carrier of documents of the collection, listed in
  ascending order of \<open>lastUpdated\<close>; each of these documents was last updated strictly
  before \<open>now - olderThanMinutes * 60 * 1000\<close> and is not marked delivered (and is active).
  A document updated at or after the cutoff, or marked delivered, is not among them.
\<close>

theorem getShipmentsNeedingUpdate_sound:
  "getShipmentsNeedingUpdate now olderThanMinutes db
     = map (\<lambda>d. (trackingNo d, service d)) (staleDocuments now olderThanMinutes db)
   \<and> sorted (map lastUpdated (staleDocuments now olderThanMinutes db))
   \<and> (\<forall>d \<in> set (staleDocuments now olderThanMinutes db).
         d \<in> set db \<and> lastUpdated d < now - olderThanMinutes * 60 * 1000
         \<and> \<not> isDelivered (shipment (trackingResponse d)) \<and> isActive d)
   \<and> (\<forall>k \<in> set (getShipmentsNeedingUpdate now olderThanMinutes db).
         \<exists>d \<in> set db. k = (trackingNo d, service d)
           \<and> lastUpdated d < now - olderThanMinutes * 60 * 1000
           \<and> \<not> isDelivered (shipment (trackingResponse d)))
   \<and> (\<forall>d \<in> set db. now - olderThanMinutes * 60 * 1000 \<le> lastUpdated d
                       \<or> isDelivered (shipment (trackingResponse d))
         \<longrightarrow> d \<notin> set (staleDocuments now olderThanMinutes db))"
  by (auto simp: getShipmentsNeedingUpdate_def staleDocuments_def needsUpdate_def Let_def)

theorem getShipmentsNeedingUpdate_sound_witness:
  "getShipmentsNeedingUpdate 1000000 15 [staleDoc, freshDoc, deliveredDoc, olderDoc]
     = [(''OLDER'', ''ups''), (''OLD'', ''purolator'')]
   \<and> freshDoc \<notin> set (staleDocuments 1000000 15 [staleDoc, freshDoc, deliveredDoc, olderDoc])
   \<and> deliveredDoc \<notin> set (staleDocuments 1000000 15 [staleDoc, freshDoc, deliveredDoc, olderDoc])
   \<and> sorted (map lastUpdated (staleDocuments 1000000 15 [staleDoc, freshDoc, deliveredDoc, olderDoc]))"
proof -
  note t = getShipmentsNeedingUpdate_sound[of 1000000 15 "[staleDoc, freshDoc, deliveredDoc, olderDoc]"]
  have a: "(1000000::int) - 15 * 60 * 1000 \<le> lastUpdated freshDoc"
    by (simp add: freshDoc_def sampleDoc_def)
  have b: "isDelivered (shipment (trackingResponse deliveredDoc))"
    by (simp add: deliveredDoc_def sampleDoc_def)
  from t a have 1: "freshDoc \<notin> set (staleDocuments 1000000 15 [staleDoc, freshDoc, deliveredDoc, olderDoc])"
    by (meson list.set_intros)
  from t b have 2: "deliveredDoc \<notin> set (staleDocuments 1000000 15 [staleDoc, freshDoc, deliveredDoc, olderDoc])"
    by (meson list.set_intros)
  from t have 3: "getShipmentsNeedingUpdate 1000000 15 [staleDoc, freshDoc, deliveredDoc, olderDoc]
     = map (\<lambda>d. (trackingNo d, service d)) (staleDocuments 1000000 15 [staleDoc, freshDoc, deliveredDoc, olderDoc])"
    and 4: "sorted (map lastUpdated (staleDocuments 1000000 15 [staleDoc, freshDoc, deliveredDoc, olderDoc]))"
    by blast+
  have 5: "map (\<lambda>d. (trackingNo d, service d)) [olderDoc, staleDoc] = [(''OLDER'', ''ups''), (''OLD'', ''purolator'')]"
    by (simp add: olderDoc_def staleDoc_def sampleDoc_def)
  show ?thesis using 1 2 3 4 5 by (simp add: sample_stale_eval)
qed

text \<open>
  C10. When a record exists for the key, \<^verbatim>\<open>findOrCreate\<close> saves that record with a new
  response, a new \<open>lastUpdated\<close>, error count 0 and no last error, and nothing else:
  \<open>isActive\<close>, tracking number and carrier of every document of the collection are as
  before, and the documents of other keys are still there. When none exists, the
  collection gains one document, active and with error count 0. \<^verbatim>\<open>updateTracking\<close>
  changes the same four fields of its document and no other.
\<close>

theorem findOrCreate_frame:
  assumes "findOrCreate now tn sv resp db = (d', db')"
  shows "(case findOne db tn sv of
            Some existing \<Rightarrow>
              d' = existing\<lparr>trackingResponse := resp, lastUpdated := now, errorCount := 0, lastError := None\<rparr>
              \<and> isActive d' = isActive existing
              \<and> db' = save tn sv d' db
              \<and> map isActive db' = map isActive db
              \<and> map trackingNo db' = map trackingNo db
              \<and> map service db' = map service db
              \<and> (\<forall>x\<in>set db. \<not> hasKey tn sv x \<longrightarrow> x \<in> set db')
          | None \<Rightarrow>
              db' = db @ [d'] \<and> isActive d' = True \<and> errorCount d' = 0
              \<and> trackingNo d' = tn \<and> service d' = sv \<and> trackingResponse d' = resp)
         \<and> isActive (updateTracking now resp d) = isActive d
         \<and> updateTracking now resp d = d\<lparr>trackingResponse := resp, lastUpdated := now, errorCount := 0, lastError := None\<rparr>"
proof (cases "findOne db tn sv")
  case None
  with assms show ?thesis by (auto simp: findOrCreate_def updateTracking_def Let_def)
next
  case (Some e)
  with assms have d': "d' = e\<lparr>trackingResponse := resp, lastUpdated := now, errorCount := 0, lastError := None\<rparr>"
    and db': "db' = save tn sv d' db"
    by (auto simp: findOrCreate_def Let_def)
  have "map isActive db' = map isActive db" "map trackingNo db' = map trackingNo db" "map service db' = map service db"
    unfolding db' using Some d' by (auto intro!: map_sel_save)
  moreover have "\<forall>x\<in>set db. \<not> hasKey tn sv x \<longrightarrow> x \<in> set db'"
    unfolding db' by (auto intro: others_save)
  ultimately show ?thesis using Some d' db' by (simp add: updateTracking_def)
qed

theorem findOrCreate_frame_witness:
  "(\<exists>d' db'. findOrCreate 7 ''329702318141'' ''purolator'' sampleResponse [staleDoc, inactiveDoc] = (d', db')
        \<and> isActive d' = False \<and> errorCount d' = 0 \<and> map isActive db' = [True, False]
        \<and> staleDoc \<in> set db')
   \<and> (\<exists>d' db'. findOrCreate 7 ''NEW'' ''ups'' sampleResponse [staleDoc, inactiveDoc] = (d', db')
        \<and> isActive d' = True \<and> errorCount d' = 0 \<and> db' = [staleDoc, inactiveDoc, d'])"
proof -
  obtain d1 db1 where h1: "findOrCreate 7 ''329702318141'' ''purolator'' sampleResponse [staleDoc, inactiveDoc] = (d1, db1)"
    by (cases "findOrCreate 7 ''329702318141'' ''purolator'' sampleResponse [staleDoc, inactiveDoc]")
  obtain d2 db2 where h2: "findOrCreate 7 ''NEW'' ''ups'' sampleResponse [staleDoc, inactiveDoc] = (d2, db2)"
    by (cases "findOrCreate 7 ''NEW'' ''ups'' sampleResponse [staleDoc, inactiveDoc]")
  have f1: "findOne [staleDoc, inactiveDoc] ''329702318141'' ''purolator'' = Some inactiveDoc"
    by (simp add: findOne_def hasKey_def staleDoc_def inactiveDoc_def sampleDoc_def)
  have f2: "findOne [staleDoc, inactiveDoc] ''NEW'' ''ups'' = None"
    by (simp add: findOne_def hasKey_def staleDoc_def inactiveDoc_def sampleDoc_def)
  have nk: "\<not> hasKey ''329702318141'' ''purolator'' staleDoc"
    by (simp add: hasKey_def staleDoc_def sampleDoc_def)
  have act: "map isActive [staleDoc, inactiveDoc] = [True, False]"
    by (simp add: staleDoc_def inactiveDoc_def sampleDoc_def)
  from findOrCreate_frame[OF h1, of sampleDoc] f1 nk act
  have "isActive d1 = False \<and> errorCount d1 = 0 \<and> map isActive db1 = [True, False] \<and> staleDoc \<in> set db1"
    by (simp add: inactiveDoc_def)
  moreover from findOrCreate_frame[OF h2, of sampleDoc] f2
  have "isActive d2 = True \<and> errorCount d2 = 0 \<and> db2 = [staleDoc, inactiveDoc, d2]"
    by simp
  ultimately show ?thesis using h1 h2 by simp
qed

text \<open>
  C8. Two upserts in a row with one key and one response: the second changes nothing in
  the collection but the \<open>lastUpdated\<close> stamp of the key's record. That record holds the
  response, error count 0, no last error and the \<open>isActive\<close> it had after the first
  call; the number of records of the key is as after the first call, and it is one when
  the collection held at most one to begin with.
\<close>

theorem findOrCreate_twice:
  assumes "findOrCreate t1 tn sv resp db = (d1, db1)"
      and "findOrCreate t2 tn sv resp db1 = (d2, db2)"
  shows "sameButLastUpdated db2 db1
       \<and> db2 = save tn sv (d1\<lparr>lastUpdated := t2\<rparr>) db1
       \<and> d2 = d1\<lparr>lastUpdated := t2\<rparr>
       \<and> findOne db2 tn sv = Some d2
       \<and> trackingResponse d2 = resp \<and> errorCount d2 = 0 \<and> lastError d2 = None
       \<and> isActive d2 = isActive d1
       \<and> length db2 = length db1
       \<and> length (filter (hasKey tn sv) db2) = length (filter (hasKey tn sv) db1)
       \<and> (length (filter (hasKey tn sv) db) \<le> 1 \<longrightarrow> length (filter (hasKey tn sv) db2) = 1)"
proof -
  have k1: "hasKey tn sv d1" and f1: "findOne db1 tn sv = Some d1"
    and r1: "trackingResponse d1 = resp" "errorCount d1 = 0" "lastError d1 = None"
    and c1: "length (filter (hasKey tn sv) db) \<le> 1 \<longrightarrow> length (filter (hasKey tn sv) db1) = 1"
  proof -
    show "hasKey tn sv d1" using assms(1)
      by (auto simp: findOrCreate_def Let_def hasKey_def split: option.splits dest: findOne_hasKey)
    then show "findOne db1 tn sv = Some d1" using assms(1)
      by (auto simp: findOrCreate_def Let_def split: option.splits intro: findOne_save findOne_append_new)
    show "trackingResponse d1 = resp" "errorCount d1 = 0" "lastError d1 = None" using assms(1)
      by (auto simp: findOrCreate_def Let_def split: option.splits)
    show "length (filter (hasKey tn sv) db) \<le> 1 \<longrightarrow> length (filter (hasKey tn sv) db1) = 1"
    proof (cases "findOne db tn sv")
      case None
      then have "filter (hasKey tn sv) db = []" by (auto simp: findOne_None filter_empty_conv)
      with None assms(1) \<open>hasKey tn sv d1\<close> show ?thesis by (auto simp: findOrCreate_def Let_def)
    next
      case (Some e)
      then have "e \<in> set db" "hasKey tn sv e" by (auto dest: findOne_mem findOne_hasKey)
      then have "filter (hasKey tn sv) db \<noteq> []" by (auto simp: filter_empty_conv)
      then have "length (filter (hasKey tn sv) db) \<ge> 1" by (cases "filter (hasKey tn sv) db") auto
      moreover have "length (filter (hasKey tn sv) db1) = length (filter (hasKey tn sv) db)"
        using Some assms(1) \<open>hasKey tn sv d1\<close> by (auto simp: findOrCreate_def Let_def count_save)
      ultimately show ?thesis by simp
    qed
  qed
  from f1 assms(2) have d2: "d2 = d1\<lparr>trackingResponse := resp, lastUpdated := t2, errorCount := 0, lastError := None\<rparr>"
    and db2: "db2 = save tn sv d2 db1"
    by (auto simp: findOrCreate_def Let_def)
  from d2 r1 have d2': "d2 = d1\<lparr>lastUpdated := t2\<rparr>" by simp
  have k2: "hasKey tn sv d2" using k1 d2' by (simp add: hasKey_def)
  have "sameButLastUpdated db2 db1"
    unfolding sameButLastUpdated_def db2 using f1 d2' by (intro map_erase_save) auto
  moreover have "findOne db2 tn sv = Some d2" unfolding db2 using k2 f1 by (rule findOne_save)
  moreover have "length (filter (hasKey tn sv) db2) = length (filter (hasKey tn sv) db1)"
    unfolding db2 using k2 by (rule count_save)
  ultimately show ?thesis using d2' db2 r1 c1 by (simp add: length_save)
qed

theorem findOrCreate_twice_witness:
  "\<exists>d1 db1 d2 db2. findOrCreate 7 ''NEW'' ''ups'' sampleResponse [staleDoc, inactiveDoc] = (d1, db1)
      \<and> findOrCreate 9 ''NEW'' ''ups'' sampleResponse db1 = (d2, db2)
      \<and> length (filter (hasKey ''NEW'' ''ups'') [staleDoc, inactiveDoc]) \<le> 1
      \<and> sameButLastUpdated db2 db1 \<and> d2 = d1\<lparr>lastUpdated := 9\<rparr>
      \<and> length (filter (hasKey ''NEW'' ''ups'') db2) = 1"
proof -
  obtain d1 db1 where h1: "findOrCreate 7 ''NEW'' ''ups'' sampleResponse [staleDoc, inactiveDoc] = (d1, db1)"
    by (cases "findOrCreate 7 ''NEW'' ''ups'' sampleResponse [staleDoc, inactiveDoc]")
  obtain d2 db2 where h2: "findOrCreate 9 ''NEW'' ''ups'' sampleResponse db1 = (d2, db2)"
    by (cases "findOrCreate 9 ''NEW'' ''ups'' sampleResponse db1")
  have c: "length (filter (hasKey ''NEW'' ''ups'') [staleDoc, inactiveDoc]) \<le> 1"
    by (simp add: hasKey_def staleDoc_def inactiveDoc_def sampleDoc_def)
  from findOrCreate_twice[OF h1 h2] c h1 h2 show ?thesis by blast
qed

section \<open>The carrier registry: properties\<close>

lemma sublist_joinWith: "k \<in> set xs \<Longrightarrow> sublist k (joinWith sep xs)"
proof (induction sep xs rule: joinWith.induct)
  case (1 sep)
  then show ?case by simp
next
  case (2 sep x)
  then show ?case by simp
next
  case (3 sep x y ys)
  show ?case
  proof (cases "k = x")
    case True
    then show ?thesis by (simp add: sublist_def) (metis append_Nil)
  next
    case False
    with 3 have "sublist k (joinWith sep (y # ys))" by simp
    then obtain ps ss where "joinWith sep (y # ys) = ps @ k @ ss" by (auto simp: sublist_def)
    then have "joinWith sep (x # y # ys) = (x @ sep @ ps) @ k @ ss" by simp
    then show ?thesis unfolding sublist_def by blast
  qed
qed

lemma sublist_mid: "sublist k (a @ k @ b)"
  unfolding sublist_def by blast

lemma sublist_in_suffix: "sublist k t \<Longrightarrow> sublist k (a @ t)"
  unfolding sublist_def by (metis append.assoc)

lemma map_of_register: "map_of (register c svc reg) = (map_of reg)(c \<mapsto> svc)"
  by (induction reg) (auto simp: fun_eq_iff)

lemma keys_register:
  "set (map fst (register c svc reg)) = insert c (set (map fst reg))"
proof -
  have "set (map fst (register c svc reg)) = dom (map_of (register c svc reg))"
    by (simp add: dom_map_of_conv_image_fst)
  also have "\<dots> = insert c (dom (map_of reg))" by (simp add: map_of_register)
  also have "\<dots> = insert c (set (map fst reg))" by (simp add: dom_map_of_conv_image_fst)
  finally show ?thesis .
qed

text \<open>
  C9. For a carrier that is not among the registered ones, \<^verbatim>\<open>getService\<close> fails with the
  message built from the requested identifier and the registered identifiers: the
  message holds the requested identifier in double quotes and every registered
  identifier, and it ends with the list of them, joined by comma and space. For a
  registered carrier it returns the registered service. It fails in no other case; a
  carrier is registered from the \<^verbatim>\<open>register\<close> call on, which is also when
  \<^verbatim>\<open>isSupported\<close> holds.
\<close>

theorem getService_unknown_or_registered:
  "(carrier \<notin> set (getSupportedCarriers services) \<longrightarrow>
       getService services carrier = Inl (notImplementedMessage services carrier)
       \<and> sublist ([CHR 0x22] @ carrier @ [CHR 0x22]) (notImplementedMessage services carrier)
       \<and> (\<forall>k \<in> set (getSupportedCarriers services).
             sublist k (notImplementedMessage services carrier))
       \<and> suffix (joinWith '', '' (getSupportedCarriers services))
            (notImplementedMessage services carrier))
   \<and> (carrier \<in> set (getSupportedCarriers services) \<longrightarrow>
       (\<exists>svc. getService services carrier = Inr svc \<and> map_of services carrier = Some svc))
   \<and> ((\<exists>m. getService services carrier = Inl m) \<longleftrightarrow> carrier \<notin> set (getSupportedCarriers services))
   \<and> getService (register carrier svc' services) carrier = Inr svc'
   \<and> set (getSupportedCarriers (register carrier svc' services))
        = insert carrier (set (getSupportedCarriers services))
   \<and> isSupported services carrier = (carrier \<in> set (getSupportedCarriers services))"
proof -
  have none: "map_of services carrier = None \<longleftrightarrow> carrier \<notin> set (getSupportedCarriers services)"
    by (simp add: getSupportedCarriers_def map_of_eq_None_iff)
  have m1: "sublist ([CHR 0x22] @ carrier @ [CHR 0x22]) (notImplementedMessage services carrier)"
    unfolding notImplementedMessage_def
    by (rule sublist_in_suffix) (simp only: sublist_def append_assoc, blast)
  have m2: "\<forall>k \<in> set (getSupportedCarriers services). sublist k (notImplementedMessage services carrier)"
  proof
    fix k assume "k \<in> set (getSupportedCarriers services)"
    then have "sublist k (joinWith '', '' (getSupportedCarriers services))" by (rule sublist_joinWith)
    then show "sublist k (notImplementedMessage services carrier)"
      unfolding notImplementedMessage_def by (intro sublist_in_suffix)
  qed
  have m3: "suffix (joinWith '', '' (getSupportedCarriers services)) (notImplementedMessage services carrier)"
    unfolding notImplementedMessage_def by (intro suffix_appendI suffix_order.refl)
  have r: "getService (register carrier svc' services) carrier = Inr svc'"
    by (simp add: getService_def map_of_register)
  have k: "set (getSupportedCarriers (register carrier svc' services)) = insert carrier (set (getSupportedCarriers services))"
    unfolding getSupportedCarriers_def by (rule keys_register)
  have g: "map_of services carrier = None \<Longrightarrow> getService services carrier = Inl (notImplementedMessage services carrier)"
    by (simp add: getService_def)
  have h: "\<And>v. map_of services carrier = Some v \<Longrightarrow> getService services carrier = Inr v"
    by (simp add: getService_def)
  have i: "isSupported services carrier = (carrier \<in> set (getSupportedCarriers services))"
    using none by (simp add: isSupported_def)
  show ?thesis
  proof (cases "map_of services carrier")
    case None
    then show ?thesis using none m1 m2 m3 r k g i by simp
  next
    case (Some v)
    then show ?thesis using none r k h[OF Some] i by simp
  qed
qed

theorem getService_unknown_or_registered_witness:
  "''fedex'' \<notin> set (getSupportedCarriers (trackingServiceRegistry (1::nat) 2))
   \<and> ''ups'' \<in> set (getSupportedCarriers (trackingServiceRegistry (1::nat) 2))
   \<and> getService (trackingServiceRegistry (1::nat) 2) ''fedex''
       = Inl (''Tracking service for carrier '' @ [CHR 0x22] @ ''fedex'' @ [CHR 0x22]
              @ '' is not implemented. Supported carriers: purolator, ups'')
   \<and> sublist ''ups'' (notImplementedMessage (trackingServiceRegistry (1::nat) 2) ''fedex'')
   \<and> getService (trackingServiceRegistry (1::nat) 2) ''ups'' = Inr 2"
proof -
  note t = getService_unknown_or_registered[of "''fedex''" "trackingServiceRegistry (1::nat) 2" 0]
  note u = getService_unknown_or_registered[of "''ups''" "trackingServiceRegistry (1::nat) 2" 0]
  have keys: "getSupportedCarriers (trackingServiceRegistry (1::nat) 2) = [''purolator'', ''ups'']"
    by (simp add: getSupportedCarriers_def trackingServiceRegistry_def)
  have a: "''fedex'' \<notin> set (getSupportedCarriers (trackingServiceRegistry (1::nat) 2))"
    and b: "''ups'' \<in> set (getSupportedCarriers (trackingServiceRegistry (1::nat) 2))"
    unfolding keys by simp_all
  have msg: "notImplementedMessage (trackingServiceRegistry (1::nat) 2) ''fedex''
       = ''Tracking service for carrier '' @ [CHR 0x22] @ ''fedex'' @ [CHR 0x22]
              @ '' is not implemented. Supported carriers: purolator, ups''"
    unfolding notImplementedMessage_def keys by simp
  have lk: "map_of (trackingServiceRegistry (1::nat) 2) ''ups'' = Some 2"
    by (simp add: trackingServiceRegistry_def)
  from t a b have "getService (trackingServiceRegistry (1::nat) 2) ''fedex'' = Inl (notImplementedMessage (trackingServiceRegistry (1::nat) 2) ''fedex'')"
     and "sublist ''ups'' (notImplementedMessage (trackingServiceRegistry (1::nat) 2) ''fedex'')"
    by blast+
  moreover from u b lk have "getService (trackingServiceRegistry (1::nat) 2) ''ups'' = Inr 2"
    by auto
  ultimately show ?thesis using a b msg by simp
qed

section \<open>The reconciliation scheduler: properties\<close>

lemma schedulerStep_invariant:
  "inTry s \<le> 1 \<and> (isRunning s \<longleftrightarrow> inTry s = 1) \<Longrightarrow>
   inTry (schedulerStep e s) \<le> 1 \<and> (isRunning (schedulerStep e s) \<longleftrightarrow> inTry (schedulerStep e s) = 1)"
  by (cases e) auto

lemma runEvents_invariant:
  "inTry s \<le> 1 \<and> (isRunning s \<longleftrightarrow> inTry s = 1) \<Longrightarrow>
   inTry (runEvents evs s) \<le> 1 \<and> (isRunning (runEvents evs s) \<longleftrightarrow> inTry (runEvents evs s) = 1)"
proof (induction evs arbitrary: s)
  case Nil
  then show ?case by (simp add: runEvents_def)
next
  case (Cons e evs)
  from Cons.IH[OF schedulerStep_invariant[OF Cons.prems, of e]]
  show ?case by (simp add: runEvents_def)
qed

text \<open>
  C6. A call of \<^verbatim>\<open>updateTrackedShipments\<close> (a tick, the run at startup or
  \<^verbatim>\<open>triggerUpdate\<close>) that finds the flag set returns at once and changes nothing. A
  call that finds it clear runs the pass and ends with the flag clear, whatever the
  \<^verbatim>\<open>try\<close> block did: the result does not depend on whether the pass body returned or
  threw. Seen step by step, an \<open>Invoke\<close> under a set flag changes nothing, the end of a
  \<^verbatim>\<open>try\<close> block clears the flag, and along every sequence of calls and completions
  from the idle scheduler at most one call is inside its \<^verbatim>\<open>try\<close> block, which is
  exactly when the flag is set.
\<close>

theorem updateTrackedShipments_guard:
  "(isRunning cron \<longrightarrow> updateTrackedShipments services (cron, w) = (cron, w))
   \<and> (\<not> isRunning cron \<longrightarrow>
        fst (updateTrackedShipments services (cron, w)) = cron\<lparr>isRunning := False\<rparr>
        \<and> snd (updateTrackedShipments services (cron, w)) = snd (passBody services w))
   \<and> triggerUpdate services (cron, w) = updateTrackedShipments services (cron, w)
   \<and> (isRunning s \<longrightarrow> schedulerStep Invoke s = s)
   \<and> (\<not> isRunning s \<longrightarrow> isRunning (schedulerStep Invoke s) \<and> inTry (schedulerStep Invoke s) = inTry s + 1)
   \<and> (inTry s > 0 \<longrightarrow> \<not> isRunning (schedulerStep (Settle threw) s))
   \<and> inTry (runEvents evs idleScheduler) \<le> 1
   \<and> (isRunning (runEvents evs idleScheduler) \<longleftrightarrow> inTry (runEvents evs idleScheduler) = 1)"
proof -
  have a: "isRunning cron \<longrightarrow> updateTrackedShipments services (cron, w) = (cron, w)"
    by (simp add: updateTrackedShipments_def)
  have b: "\<not> isRunning cron \<longrightarrow>
        fst (updateTrackedShipments services (cron, w)) = cron\<lparr>isRunning := False\<rparr>
        \<and> snd (updateTrackedShipments services (cron, w)) = snd (passBody services w)"
    by (simp add: updateTrackedShipments_def Let_def split: prod.splits)
  have c: "inTry idleScheduler \<le> 1 \<and> (isRunning idleScheduler \<longleftrightarrow> inTry idleScheduler = 1)"
    by (simp add: idleScheduler_def)
  show ?thesis using a b runEvents_invariant[OF c, of evs]
    by (simp add: triggerUpdate_def)
qed

lemma passBody_broken: "passBody sampleServices brokenWorld = (Some (ErrorObj ''connection lost''), sampleWorld)"
  by (simp add: passBody_def dbCall_def brokenWorld_def sampleWorld_def)

theorem updateTrackedShipments_guard_witness:
  "isRunning (idleCron\<lparr>isRunning := True\<rparr>)
   \<and> updateTrackedShipments sampleServices (idleCron\<lparr>isRunning := True\<rparr>, sampleWorld)
        = (idleCron\<lparr>isRunning := True\<rparr>, sampleWorld)
   \<and> \<not> isRunning idleCron
   \<and> fst (passBody sampleServices brokenWorld) = Some (ErrorObj ''connection lost'')
   \<and> isRunning (fst (updateTrackedShipments sampleServices (idleCron, brokenWorld))) = False
   \<and> inTry (schedulerStep Invoke idleScheduler) > 0
   \<and> \<not> isRunning (schedulerStep (Settle True) (schedulerStep Invoke idleScheduler))
   \<and> runEvents [Invoke, Invoke, Invoke] idleScheduler = schedulerStep Invoke idleScheduler"
proof -
  have r: "isRunning (idleCron\<lparr>isRunning := True\<rparr>)" "\<not> isRunning idleCron"
    by (simp_all add: idleCron_def)
  have i: "inTry (schedulerStep Invoke idleScheduler) > 0" "isRunning (schedulerStep Invoke idleScheduler)"
    by (simp_all add: idleScheduler_def)
  note t1 = updateTrackedShipments_guard[of "idleCron\<lparr>isRunning := True\<rparr>" sampleServices sampleWorld
              "schedulerStep Invoke idleScheduler" True "[]"]
  note t2 = updateTrackedShipments_guard[of idleCron sampleServices brokenWorld
              "schedulerStep Invoke idleScheduler" True "[]"]
  from t1 r have 1: "updateTrackedShipments sampleServices (idleCron\<lparr>isRunning := True\<rparr>, sampleWorld)
        = (idleCron\<lparr>isRunning := True\<rparr>, sampleWorld)" by blast
  from t2 r have 2: "fst (updateTrackedShipments sampleServices (idleCron, brokenWorld)) = idleCron\<lparr>isRunning := False\<rparr>"
    by blast
  from t1 i have 3: "\<not> isRunning (schedulerStep (Settle True) (schedulerStep Invoke idleScheduler))"
    and 4: "schedulerStep Invoke (schedulerStep Invoke idleScheduler) = schedulerStep Invoke idleScheduler"
    by blast+
  have 5: "runEvents [Invoke, Invoke, Invoke] idleScheduler = schedulerStep Invoke idleScheduler"
    by (simp add: runEvents_def 4)
  show ?thesis using r 1 2 3 5 i by (simp add: passBody_broken)
qed

text \<open>
  A pass whose store calls all succeed is never left early: every shipment of the list
  is processed in turn. A carrier call that throws, and a result of status
  \<^verbatim>\<open>error\<close>, end in \<^verbatim>\<open>recordError\<close> for that shipment's key and in the next
  iteration.
\<close>

lemma dbCall_noFaults:
  "dbFaults w = [] \<Longrightarrow>
   dbCall operation w = (Inr (fst (operation (clock w) (documents w))),
                         w\<lparr>documents := snd (operation (clock w) (documents w))\<rparr>)"
  by (simp add: dbCall_def split: prod.splits)

lemma tryUpdate_noFaults:
  assumes "dbFaults (world st) = []"
  shows "dbFaults (world (snd (tryUpdate services tn sv st))) = []"
  using assms
  by (simp add: tryUpdate_def dbCall_noFaults delay_def split: sum.splits)

lemma updateShipment_noFaults:
  assumes "dbFaults (world st) = []"
  shows "fst (updateShipment services key st) = None
       \<and> dbFaults (world (snd (updateShipment services key st))) = []"
proof (cases key)
  case (Pair tn sv)
  show ?thesis
  proof (cases "tryUpdate services tn sv st")
    case (Pair r st1)
    have f1: "dbFaults (world st1) = []"
      using tryUpdate_noFaults[OF assms, of services tn sv] Pair by simp
    show ?thesis using assms f1 Pair \<open>key = (tn, sv)\<close>
      by (simp add: updateShipment_def dbCall_noFaults Let_def split: option.splits)
  qed
qed

lemma forEachShipment_noFaults:
  "dbFaults (world st) = [] \<Longrightarrow>
   forEachShipment services keys st
     = (None, fold (\<lambda>k s. snd (updateShipment services k s)) keys st)"
proof (induction keys arbitrary: st)
  case Nil
  then show ?case by simp
next
  case (Cons k ks)
  from updateShipment_noFaults[OF Cons.prems, of services k]
  have a: "fst (updateShipment services k st) = None"
    and b: "dbFaults (world (snd (updateShipment services k st))) = []" by blast+
  obtain st1 where c: "updateShipment services k st = (None, st1)"
    using a by (cases "updateShipment services k st") auto
  show ?case using Cons.IH[of st1] b c by simp
qed

lemma failure_of_one_shipment_is_isolated:
  assumes "dbFaults (world st) = []"
  shows "fst (forEachShipment services (key # rest) st) = None
       \<and> forEachShipment services (key # rest) st
           = forEachShipment services rest (snd (updateShipment services key st))
       \<and> snd (forEachShipment services keys st)
           = fold (\<lambda>k s. snd (updateShipment services k s)) keys st
       \<and> (\<forall>svc t. map_of services sv = Some svc \<and> svc tn = Inl t \<longrightarrow>
            updateShipment services (tn, sv) st
              = (None, st\<lparr>passErrorCount := passErrorCount st + 1,
                            world := (world st)\<lparr>documents :=
                               snd (recordError (clock (world st)) tn sv (errorMessageOf t)
                                      (documents (world st)))\<rparr>\<rparr>))
       \<and> (\<forall>svc r. map_of services sv = Some svc \<and> svc tn = Inr r \<and> status r = ''error'' \<longrightarrow>
            updateShipment services (tn, sv) st
              = (None, delay 500 (st\<lparr>world := (world st)\<lparr>documents :=
                               snd (recordError (clock (world st)) tn sv (joinWith '', '' (errors r))
                                      (documents (world st)))\<rparr>,
                            passErrorCount := passErrorCount st + 1\<rparr>)))"
proof -
  have a: "forEachShipment services (key # rest) st
             = (None, fold (\<lambda>k s. snd (updateShipment services k s)) (key # rest) st)"
    using assms by (rule forEachShipment_noFaults)
  have f: "dbFaults (world (snd (updateShipment services key st))) = []"
    using updateShipment_noFaults[OF assms] by blast
  have b: "forEachShipment services rest (snd (updateShipment services key st))
             = (None, fold (\<lambda>k s. snd (updateShipment services k s)) rest (snd (updateShipment services key st)))"
    using f by (rule forEachShipment_noFaults)
  have c: "snd (forEachShipment services keys st) = fold (\<lambda>k s. snd (updateShipment services k s)) keys st"
    using forEachShipment_noFaults[OF assms, of services keys] by simp
  have d: "\<forall>svc t. map_of services sv = Some svc \<and> svc tn = Inl t \<longrightarrow>
            updateShipment services (tn, sv) st
              = (None, st\<lparr>passErrorCount := passErrorCount st + 1,
                            world := (world st)\<lparr>documents :=
                               snd (recordError (clock (world st)) tn sv (errorMessageOf t)
                                      (documents (world st)))\<rparr>\<rparr>)"
    using assms
    by (simp add: updateShipment_def isSupported_def tryUpdate_def getService_def dbCall_noFaults Let_def)
  have e: "\<forall>svc r. map_of services sv = Some svc \<and> svc tn = Inr r \<and> status r = ''error'' \<longrightarrow>
            updateShipment services (tn, sv) st
              = (None, delay 500 (st\<lparr>world := (world st)\<lparr>documents :=
                               snd (recordError (clock (world st)) tn sv (joinWith '', '' (errors r))
                                      (documents (world st)))\<rparr>,
                            passErrorCount := passErrorCount st + 1\<rparr>))"
    using assms
    by (simp add: updateShipment_def isSupported_def tryUpdate_def getService_def dbCall_noFaults Let_def)
  show ?thesis using a b c d e by simp
qed

lemma failure_of_one_shipment_is_isolated_example:
  "dbFaults (world startState) = []
   \<and> map_of sampleServices ''purolator'' = Some failingService
   \<and> failingService ''329702318141'' = Inl (ErrorObj ''ETIMEDOUT'')
   \<and> fst (forEachShipment sampleServices
             [(''329702318141'', ''purolator''), (''1Z999'', ''ups'')] startState) = None
   \<and> map errorCount (documents (world (snd (forEachShipment sampleServices
             [(''329702318141'', ''purolator''), (''1Z999'', ''ups'')] startState)))) = [1, 0]
   \<and> map lastError (documents (world (snd (forEachShipment sampleServices
             [(''329702318141'', ''purolator''), (''1Z999'', ''ups'')] startState))))
        = [Some ''ETIMEDOUT'', None]
   \<and> map lastUpdated (documents (world (snd (forEachShipment sampleServices
             [(''329702318141'', ''purolator''), (''1Z999'', ''ups'')] startState))))
        = [1000000, 1000000]
   \<and> passSuccessCount (snd (forEachShipment sampleServices
             [(''329702318141'', ''purolator''), (''1Z999'', ''ups'')] startState)) = 1
   \<and> passErrorCount (snd (forEachShipment sampleServices
             [(''329702318141'', ''purolator''), (''1Z999'', ''ups'')] startState)) = 1"
proof -
  have h: "dbFaults (world startState) = []"
    by (simp add: startState_def sampleWorld_def)
  have m: "map_of sampleServices ''purolator'' = Some failingService"
    by (simp add: sampleServices_def trackingServiceRegistry_def)
  have f: "failingService ''329702318141'' = Inl (ErrorObj ''ETIMEDOUT'')"
    by (simp add: failingService_def)
  note t = failure_of_one_shipment_is_isolated[OF h, of sampleServices
             "(''329702318141'', ''purolator'')" "[(''1Z999'', ''ups'')]" "[]"
             "''purolator''" "''329702318141''"]
  from t have 1: "fst (forEachShipment sampleServices
             [(''329702318141'', ''purolator''), (''1Z999'', ''ups'')] startState) = None"
    and 2: "forEachShipment sampleServices [(''329702318141'', ''purolator''), (''1Z999'', ''ups'')] startState
           = forEachShipment sampleServices [(''1Z999'', ''ups'')]
               (snd (updateShipment sampleServices (''329702318141'', ''purolator'') startState))"
    by blast+
  from t m f have 3: "updateShipment sampleServices (''329702318141'', ''purolator'') startState
              = (None, startState\<lparr>passErrorCount := passErrorCount startState + 1,
                            world := (world startState)\<lparr>documents :=
                               snd (recordError (clock (world startState)) ''329702318141'' ''purolator''
                                      (errorMessageOf (ErrorObj ''ETIMEDOUT''))
                                      (documents (world startState)))\<rparr>\<rparr>)"
    by blast
  have 4: "snd (recordError (clock (world startState)) ''329702318141'' ''purolator''
                  (errorMessageOf (ErrorObj ''ETIMEDOUT'')) (documents (world startState)))
           = [sampleDoc\<lparr>errorCount := 1, lastError := Some ''ETIMEDOUT'', lastUpdated := 1000000\<rparr>, upsDoc]"
    by (simp add: recordError_def findOne_def hasKey_def startState_def sampleWorld_def
        sampleDoc_def recordErrorDoc_def errorMessageOf_def Let_def)
  have 5: "forEachShipment sampleServices [(''1Z999'', ''ups'')]
             \<lparr>world = \<lparr>documents = [sampleDoc\<lparr>errorCount := 1, lastError := Some ''ETIMEDOUT'', lastUpdated := 1000000\<rparr>, upsDoc],
                        clock = 1000000, dbFaults = []\<rparr>,
              passSuccessCount = 0, passErrorCount = 1\<rparr>
           = (None, \<lparr>world = \<lparr>documents = [sampleDoc\<lparr>errorCount := 1, lastError := Some ''ETIMEDOUT'', lastUpdated := 1000000\<rparr>,
                                             upsDoc\<lparr>lastUpdated := 1000000\<rparr>],
                        clock = 1000500, dbFaults = []\<rparr>,
              passSuccessCount = 1, passErrorCount = 1\<rparr>)"
    by (simp add: updateShipment_def isSupported_def tryUpdate_def getService_def dbCall_def
        sampleServices_def trackingServiceRegistry_def answeringService_def sampleResponse_def
        updateTrackingResponse_def updateTracking_def findOne_def hasKey_def sampleDoc_def
        upsDoc_def delay_def Let_def)
  have 6: "snd (updateShipment sampleServices (''329702318141'', ''purolator'') startState)
         = \<lparr>world = \<lparr>documents = [sampleDoc\<lparr>errorCount := 1, lastError := Some ''ETIMEDOUT'', lastUpdated := 1000000\<rparr>, upsDoc],
                        clock = 1000000, dbFaults = []\<rparr>,
              passSuccessCount = 0, passErrorCount = 1\<rparr>"
    unfolding 3 4 by (simp add: startState_def sampleWorld_def)
  show ?thesis unfolding 2 6 5 using h m f
    by (simp add: sampleDoc_def upsDoc_def)
qed

text \<open>
  C7 at a failed UPS call. The UPS service reports its failures (here the one for an
  unknown tracking number) as a result of status \<^verbatim>\<open>ERROR\<close>; the pass tests for
  \<^verbatim>\<open>error\<close>, takes the other branch and stores the result with
  \<^verbatim>\<open>updateTrackingResponse\<close>: the record's error count goes from 3 to 0, its last error
  is cleared, and the shipment counts as a success. \<^verbatim>\<open>recordError\<close>, which the
  multi-carrier routes would have reached through their test for both spellings,
  would have stored count 4 and the message.
\<close>

theorem ups_error_status_stored_as_success:
  "updateShipment notFoundServices (''1Z999'', ''ups'')
     \<lparr>world = \<lparr>documents = [upsTroubledDoc], clock = 1000000, dbFaults = []\<rparr>,
      passSuccessCount = 0, passErrorCount = 0\<rparr>
   = (None,
      \<lparr>world = \<lparr>documents = [upsTroubledDoc\<lparr>trackingResponse := upsNotFound,
                                 lastUpdated := 1000000, errorCount := 0, lastError := None\<rparr>],
                 clock = 1000500, dbFaults = []\<rparr>,
       passSuccessCount = 1, passErrorCount = 0\<rparr>)
   \<and> snd (recordError 1000000 ''1Z999'' ''ups''
             (joinWith '', '' (errors upsNotFound)) [upsTroubledDoc])
       = [upsTroubledDoc\<lparr>errorCount := 4,
                          lastError := Some ''The tracking number was not found in UPS system'',
                          lastUpdated := 1000000\<rparr>]"
  by (simp add: updateShipment_def isSupported_def tryUpdate_def getService_def dbCall_def
      notFoundServices_def trackingServiceRegistry_def upsNotFound_def
      updateTrackingResponse_def updateTracking_def findOne_def hasKey_def sampleDoc_def
      upsDoc_def upsTroubledDoc_def delay_def recordError_def recordErrorDoc_def Let_def)

section \<open>The normalizers: properties\<close>

lemma truthy_not_nullish: "truthy j \<Longrightarrow> \<not> nullish j"
  by (cases j) auto

lemma getProp_Some: "\<not> nullish j \<Longrightarrow> getProp j k = Some (optProp j k)"
  by (cases j) (auto simp: optProp_def)

lemma getProp_eq_Some: "getProp j k = Some v \<Longrightarrow> v = optProp j k"
  by (simp add: optProp_def)

lemma statusOf_values:
  "statusOf errs fr = Some sd \<Longrightarrow>
   fst sd = (if errs \<noteq> [] then ''error''
             else if \<not> truthy fr \<or> optProp fr ''status'' = JStr ''NOT_FOUND''
                     \<or> \<not> truthy (optProp fr ''Shipment'') then ''not_found''
             else ''success'')"
  by (auto simp: statusOf_def bind_eq_Some_conv split: if_splits dest!: getProp_eq_Some)

lemma transformTrackingResponse_cases:
  assumes "transformTrackingResponse j = Some r"
  shows "r = invalidSoapResponse
       \<or> (\<exists>sd. statusOf (errors r) (firstSearchResult j) = Some sd \<and> status r = fst sd
              \<and> transformShipmentInfo (optProp (firstSearchResult j) ''Shipment'') = Some (shipment r))"
proof -
  from assms obtain result where res: "soapResult j = Some result"
    by (auto simp: transformTrackingResponse_def bind_eq_Some_conv)
  show ?thesis
  proof (cases "truthy result")
    case False
    with assms res show ?thesis by (simp add: transformTrackingResponse_def)
  next
    case True
    then have nn: "\<not> nullish result" by (rule truthy_not_nullish)
    show ?thesis
    proof (cases "\<not> truthy (optProp result ''ResponseInformation'') \<and> \<not> truthy (optProp result ''SearchResults'')")
      case True
      with assms res \<open>truthy result\<close> nn show ?thesis
        by (simp add: transformTrackingResponse_def getProp_Some)
    next
      case False
      with assms res \<open>truthy result\<close> nn show ?thesis
        by (auto simp: transformTrackingResponse_def getProp_Some firstSearchResult_def
            bind_eq_Some_conv Let_def)
    qed
  qed
qed

text \<open>
  C2, as the code has it. Whenever the Purolator transformer returns, the status is
  \<^verbatim>\<open>error\<close> if the response carries errors (the collected ones, or the one reported for
  a payload without response data); else \<^verbatim>\<open>not_found\<close> if there is no first search
  result, or its status is \<^verbatim>\<open>NOT_FOUND\<close>, or it has no shipment; else \<^verbatim>\<open>success\<close>.
  The UPS transformer has its own three values: \<^verbatim>\<open>ERROR\<close> when the payload has no
  shipment or the first shipment no package, else \<^verbatim>\<open>warning\<close> when the shipment
  carries warnings, else \<^verbatim>\<open>success\<close>.
\<close>

theorem status_derivation:
  "(\<forall>r. transformTrackingResponse j = Some r \<longrightarrow>
       status r \<in> {''success'', ''not_found'', ''error''}
       \<and> status r =
           (if errors r \<noteq> [] then ''error''
            else if \<not> truthy (firstSearchResult j)
                    \<or> optProp (firstSearchResult j) ''status'' = JStr ''NOT_FOUND''
                    \<or> \<not> truthy (optProp (firstSearchResult j) ''Shipment'') then ''not_found''
            else ''success''))
   \<and> status (transformUpsResponse u tn) \<in> {''success'', ''warning'', ''ERROR''}
   \<and> status (transformUpsResponse u tn) =
        (if upsPackages u = [] then ''ERROR''
         else if upsWarnings u \<noteq> [] then ''warning''
         else ''success'')"
proof -
  have p: "\<forall>r. transformTrackingResponse j = Some r \<longrightarrow>
       status r =
           (if errors r \<noteq> [] then ''error''
            else if \<not> truthy (firstSearchResult j)
                    \<or> optProp (firstSearchResult j) ''status'' = JStr ''NOT_FOUND''
                    \<or> \<not> truthy (optProp (firstSearchResult j) ''Shipment'') then ''not_found''
            else ''success'')"
  proof (intro allI impI)
    fix r assume "transformTrackingResponse j = Some r"
    from transformTrackingResponse_cases[OF this]
    show "status r =
           (if errors r \<noteq> [] then ''error''
            else if \<not> truthy (firstSearchResult j)
                    \<or> optProp (firstSearchResult j) ''status'' = JStr ''NOT_FOUND''
                    \<or> \<not> truthy (optProp (firstSearchResult j) ''Shipment'') then ''not_found''
            else ''success'')"
    proof
      assume "r = invalidSoapResponse"
      then show ?thesis by (simp add: invalidSoapResponse_def)
    next
      assume "\<exists>sd. statusOf (errors r) (firstSearchResult j) = Some sd \<and> status r = fst sd
              \<and> transformShipmentInfo (optProp (firstSearchResult j) ''Shipment'') = Some (shipment r)"
      then obtain sd where "statusOf (errors r) (firstSearchResult j) = Some sd" "status r = fst sd"
        by blast
      then show ?thesis using statusOf_values by simp
    qed
  qed
  have u: "status (transformUpsResponse u tn) =
        (if upsPackages u = [] then ''ERROR''
         else if upsWarnings u \<noteq> [] then ''warning''
         else ''success'')"
    by (auto simp: transformUpsResponse_def upsPackages_def upsWarnings_def upsErrorResponse_def
        Let_def split: option.splits list.splits)
  show ?thesis using p u by auto
qed

lemma notFoundSoap_eval:
  "transformTrackingResponse notFoundSoap
     = Some \<lparr>status = ''not_found'', description = ''Shipment not found'', errors = [],
             shipment = createEmptyShipment\<rparr>"
  by (simp add: transformTrackingResponse_def notFoundSoap_def soapResult_def optProp_def
      errorsOf_def searchResultsArray_def firstOf_def statusOf_def transformShipmentInfo_def)

lemma authErrorSoap_eval:
  "transformTrackingResponse authErrorSoap
     = Some \<lparr>status = ''error'', description = ''Tracking request completed with errors'',
             errors = [''AUTH_ERROR: Authentication failed''],
             shipment = createEmptyShipment\<rparr>"
  by (simp add: transformTrackingResponse_def authErrorSoap_def soapResult_def optProp_def
      errorsOf_def searchResultsArray_def firstOf_def statusOf_def transformShipmentInfo_def
      responseErrorText_def)

theorem status_derivation_witness:
  "transformTrackingResponse notFoundSoap
     = Some \<lparr>status = ''not_found'', description = ''Shipment not found'', errors = [],
             shipment = createEmptyShipment\<rparr>
   \<and> optProp (firstSearchResult notFoundSoap) ''status'' = JStr ''NOT_FOUND''
   \<and> status (the (transformTrackingResponse authErrorSoap)) = ''error''
   \<and> errors (the (transformTrackingResponse authErrorSoap)) \<noteq> []"
proof -
  note t = status_derivation[of authErrorSoap None "[]"]
  have e: "errors (the (transformTrackingResponse authErrorSoap)) \<noteq> []"
    by (simp add: authErrorSoap_eval)
  have s: "transformTrackingResponse authErrorSoap = Some (the (transformTrackingResponse authErrorSoap))"
    by (simp add: authErrorSoap_eval)
  from t s e have "status (the (transformTrackingResponse authErrorSoap)) = ''error''"
    by presburger
  moreover have "optProp (firstSearchResult notFoundSoap) ''status'' = JStr ''NOT_FOUND''"
    by (simp add: firstSearchResult_def notFoundSoap_def soapResult_def optProp_def
        searchResultsArray_def firstOf_def)
  ultimately show ?thesis using e by (simp add: notFoundSoap_eval)
qed

text \<open>
  C2 as stated fails for UPS: an empty payload gives the status \<^verbatim>\<open>ERROR\<close>, a shipment
  with a warning gives \<^verbatim>\<open>warning\<close>, and neither is one of the three values.
\<close>

theorem ups_status_counterexample:
  "status (transformUpsResponse None ''1Z999'') = ''ERROR''
   \<and> status (transformUpsResponse None ''1Z999'') \<notin> {''success'', ''not_found'', ''error''}
   \<and> status (transformUpsResponse (Some warnedUps) ''1Z999'') = ''warning''
   \<and> status (transformUpsResponse (Some warnedUps) ''1Z999'') \<notin> {''success'', ''not_found'', ''error''}"
  by (simp add: transformUpsResponse_def upsErrorResponse_def warnedUps_def Let_def)

lemma stamps:
  "stampOf (sampleEvent ''2022-11-17 10:48:28'' c) = 20221117104828"
  "stampOf (sampleEvent ''2022-11-15 16:52:16'' c) = 20221115165216"
  "stampOf (sampleEvent ''2022-11-14 13:26:33'' c) = 20221114132633"
  by (simp_all add: stampOf_def sampleEvent_def optProp_def isDigit_def digitsValue_def)

lemma eventsArray_packageOf: "eventsArray (packageOf evs) = Some evs"
  by (simp add: eventsArray_def packageOf_def)

lemma truthy_sampleEvent: "truthy (sampleEvent t c)"
  by (simp add: sampleEvent_def)

lemma transformEvent_sampleEvent:
  "transformEvent (sampleEvent t c)
     = Some \<lparr>dateTime = (if t = [] then DateNow else DateOf (JStr t)),
             ev_code = orElse (JStr c) (JStr []), ev_description = JStr ''Scan'',
             location = \<lparr>address_1 = JStr [], address_2 = JStr [],
                          loc_city = JStr ''MISSISSAUGA'',
                          loc_proviceState = JStr [], loc_countryCode = JStr [],
                          loc_postalZipCode = JStr []\<rparr>\<rparr>"
  by (simp add: sampleEvent_def transformEvent_def transformLocation_def newDate_def
      optProp_def orElse_def)

text \<open>
  C1 at the events of the claim, and at events reported oldest first. For the events of
  15, 17 and 14 November, in this order, both normalizers return as \<open>lastEvent\<close> the
  event of 15 November, code 9310, although the event with code 2300 is the later one.
  For the same events in ascending order, which a tracking request asks of Purolator
  with \<^verbatim>\<open>eventSortOrder: 'ASC'\<close>, the Purolator transformer returns the oldest event,
  code 3010. Neither normalizer compares times: each takes the first reported event for
  the most recent one.
\<close>

theorem lastEvent_not_most_recent:
  "map_option (\<lambda>p. (ev_code (lastEvent p), dateTime (lastEvent p)))
       (transformPackage (packageOf unorderedEvents))
     = Some (JStr ''9310'', DateOf (JStr ''2022-11-15 16:52:16''))
   \<and> sampleEvent ''2022-11-17 10:48:28'' ''2300'' \<in> set unorderedEvents
   \<and> stampOf (sampleEvent ''2022-11-15 16:52:16'' ''9310'')
       < stampOf (sampleEvent ''2022-11-17 10:48:28'' ''2300'')
   \<and> map_option (\<lambda>p. (ev_code (lastEvent p), dateTime (lastEvent p)))
       (transformPackage (packageOf oldestFirstEvents))
     = Some (JStr ''3010'', DateOf (JStr ''2022-11-14 13:26:33''))
   \<and> sampleEvent ''2022-11-17 10:48:28'' ''2300'' \<in> set oldestFirstEvents
   \<and> stampOf (sampleEvent ''2022-11-14 13:26:33'' ''3010'')
       < stampOf (sampleEvent ''2022-11-17 10:48:28'' ''2300'')
   \<and> ev_code (lastEvent (transformUpsPackage unorderedUpsPackage)) = JStr ''9310''
   \<and> dateTime (lastEvent (transformUpsPackage unorderedUpsPackage))
       = DateLocal (Some 2022) (Some 10) (Some 15) (Some 16) (Some 52) (Some 16)
   \<and> sampleActivity ''20221117'' ''104828'' ''2300''
       \<in> set (the (activity unorderedUpsPackage))
   \<and> upsStampOf (sampleActivity ''20221115'' ''165216'' ''9310'')
       < upsStampOf (sampleActivity ''20221117'' ''104828'' ''2300'')"
proof -
  have p: "map_option (\<lambda>p. (ev_code (lastEvent p), dateTime (lastEvent p)))
       (transformPackage (packageOf unorderedEvents))
     = Some (JStr ''9310'', DateOf (JStr ''2022-11-15 16:52:16''))"
    by (simp add: transformPackage_def eventsArray_packageOf unorderedEvents_def
        truthy_sampleEvent transformEvent_sampleEvent)
       (simp add: packageOf_def optProp_def orElse_def)
  have q: "map_option (\<lambda>p. (ev_code (lastEvent p), dateTime (lastEvent p)))
       (transformPackage (packageOf oldestFirstEvents))
     = Some (JStr ''3010'', DateOf (JStr ''2022-11-14 13:26:33''))"
    by (simp add: transformPackage_def eventsArray_packageOf oldestFirstEvents_def
        truthy_sampleEvent transformEvent_sampleEvent)
       (simp add: packageOf_def optProp_def orElse_def)
  have u: "lastEvent (transformUpsPackage unorderedUpsPackage)
             = transformUpsActivity (sampleActivity ''20221115'' ''165216'' ''9310'')"
    by (simp add: transformUpsPackage_def unorderedUpsPackage_def)
  have d: "parseUpsDateTime ''20221115'' ''165216''
             = DateLocal (Some 2022) (Some 10) (Some 15) (Some 16) (Some 52) (Some 16)"
    by (simp add: parseUpsDateTime_def parseInt_def substring_def isWhite_def isDigit_def
        digitsValue_def Let_def)
  have s: "upsStampOf (sampleActivity ''20221115'' ''165216'' ''9310'')
             < upsStampOf (sampleActivity ''20221117'' ''104828'' ''2300'')"
    by (simp add: upsStampOf_def sampleActivity_def isDigit_def digitsValue_def)
  show ?thesis unfolding p q u
    by (simp add: unorderedEvents_def oldestFirstEvents_def stamps transformUpsActivity_def
        sampleActivity_def d s[unfolded sampleActivity_def] unorderedUpsPackage_def)
qed

section \<open>The Purolator normalizer on partial payloads\<close>

lemma falsy_hasText: "\<not> truthy v \<Longrightarrow> hasText v"
  by (cases v) auto

lemma optProp_falsy: "\<not> truthy v \<Longrightarrow> optProp v k = JUndefined"
  by (cases v) (auto simp: optProp_def)

lemma hasText_orElse: "hasText (orElse v (JStr s)) = hasText v"
  by (cases "truthy v") (simp_all add: orElse_def falsy_hasText)

lemma getProp_nullish: "nullish j \<Longrightarrow> getProp j k = None"
  by (cases j) auto

lemma those_map_Some_iff:
  "(\<exists>ys. those (map f xs) = Some ys) = list_all (\<lambda>x. \<exists>y. f x = Some y) xs"
  by (induction xs) (auto split: option.splits)

lemma those_map_list_all:
  "those (map f xs) = Some ys \<Longrightarrow> (\<And>x y. x \<in> set xs \<Longrightarrow> f x = Some y \<Longrightarrow> Q y = R x)
   \<Longrightarrow> list_all Q ys = list_all R xs"
proof (induction xs arbitrary: ys)
  case Nil
  then show ?case by simp
next
  case (Cons x xs)
  from Cons.prems(1) obtain y zs where y: "f x = Some y" and zs: "those (map f xs) = Some zs"
    and ys: "ys = y # zs"
    by (auto split: option.splits)
  have "Q y = R x" using Cons.prems(2)[of x y] y by simp
  moreover have "list_all Q zs = list_all R xs"
  proof (rule Cons.IH[OF zs])
    fix x' y' assume "x' \<in> set xs" "f x' = Some y'"
    then show "Q y' = R x'" using Cons.prems(2)[of x' y'] by simp
  qed
  ultimately show ?case using ys by simp
qed

lemma bind_Some_iff:
  "(\<exists>z. Option.bind a (\<lambda>x. Some (g x)) = Some z) = (\<exists>x. a = Some x)"
  by (cases a) auto

lemma bind_bind_Some_iff:
  "(\<exists>z. Option.bind a (\<lambda>x. Option.bind (b x) (c x)) = Some z)
     = (\<exists>x. a = Some x \<and> (\<exists>z. Option.bind (b x) (c x) = Some z))"
  by (cases a) auto

lemma bind4_Some_iff:
  assumes "\<And>x y. \<exists>z. c x y = Some z"
  shows "(\<exists>r. Option.bind a (\<lambda>x. Option.bind b (\<lambda>y. Option.bind (c x y) (\<lambda>z.
                 Option.bind d (\<lambda>w. Some (g x y z w))))) = Some r)
           = ((\<exists>x. a = Some x) \<and> (\<exists>y. b = Some y) \<and> (\<exists>w. d = Some w))"
proof (cases a)
  case None
  then show ?thesis by simp
next
  case (Some x)
  show ?thesis
  proof (cases b)
    case None
    then show ?thesis using Some by simp
  next
    case b: (Some y)
    from assms[of x y] obtain z where "c x y = Some z" by blast
    then show ?thesis using Some b by (cases d) simp_all
  qed
qed

lemma toStr_Some_iff: "(\<exists>s. toStr v = Some s) = hasText v"
proof (induction v rule: toStr.induct)
  case (6 xs)
  have "(\<exists>s. toStr (JArr xs) = Some s)
          = (\<exists>ys. those (map (\<lambda>x. if nullish x then Some [] else toStr x) xs) = Some ys)"
    by auto
  also have "\<dots> = list_all (\<lambda>x. \<exists>y. (if nullish x then Some [] else toStr x) = Some y) xs"
    by (rule those_map_Some_iff)
  also have "\<dots> = list_all hasText xs"
    unfolding list_all_iff
  proof (rule ball_cong[OF refl])
    fix x assume x: "x \<in> set xs"
    show "(\<exists>y. (if nullish x then Some [] else toStr x) = Some y) = hasText x"
    proof (cases "nullish x")
      case True
      then show ?thesis by (cases x) auto
    next
      case False
      then show ?thesis using 6[OF x] by simp
    qed
  qed
  finally show ?case by simp
qed simp_all

lemma newDate_Some_iff: "(\<exists>d. newDate v = Some d) = hasText v"
  unfolding toStr_Some_iff[symmetric] by (cases "toStr v") (simp_all add: newDate_def)

lemma stamp_Some_iff:
  "(\<exists>d. (if truthy v then newDate v else Some DateNow) = Some d) = hasText v"
  by (cases "truthy v") (simp_all add: newDate_Some_iff falsy_hasText)

lemma transformEvent_unfold:
  "\<not> nullish e \<Longrightarrow>
   transformEvent e =
     Option.bind (if truthy (optProp e ''dateTime'') then newDate (optProp e ''dateTime'')
                  else Some DateNow)
       (\<lambda>stamp. Some \<lparr>dateTime = stamp, ev_code = orElse (optProp e ''code'') (JStr []),
                       ev_description = orElse (optProp e ''description'') (JStr []),
                       location = transformLocation (optProp e ''location'')\<rparr>)"
  by (simp add: transformEvent_def getProp_Some)

lemma transformEvent_Some_iff:
  assumes "\<not> nullish e"
  shows "(\<exists>ev. transformEvent e = Some ev) = hasText (optProp e ''dateTime'')"
  unfolding stamp_Some_iff[symmetric] transformEvent_unfold[OF assms] by (rule bind_Some_iff)

lemma transformEvent_location:
  "transformEvent e = Some ev \<Longrightarrow> location ev = transformLocation (optProp e ''location'')"
  by (auto simp: transformEvent_def bind_eq_Some_conv dest!: getProp_eq_Some)

lemma eventsArray_total: "\<not> nullish pkg \<Longrightarrow> \<exists>evs. eventsArray pkg = Some evs"
  by (auto simp: eventsArray_def getProp_Some dest: truthy_not_nullish split: json.splits)

lemma eventsArray_eventsOf: "\<not> nullish pkg \<Longrightarrow> eventsArray pkg = Some (eventsOf pkg)"
  using eventsArray_total[of pkg] by (auto simp: eventsOf_def)

lemma transformPackage_nullish: "nullish pkg \<Longrightarrow> transformPackage pkg = None"
  by (simp add: transformPackage_def eventsArray_def getProp_nullish)

lemma transformLocation_undefined: "transformLocation JUndefined = location createEmptyEvent"
  by (simp add: transformLocation_def createEmptyEvent_def optProp_def orElse_def)

lemma transformAddress_undefined: "transformAddress JUndefined = emptyAddress"
  by (simp add: transformAddress_def emptyAddress_def optProp_def orElse_def)

lemma transformPackage_unfold:
  "\<not> nullish pkg \<Longrightarrow>
   transformPackage pkg =
     Option.bind (if truthy (firstOf (eventsOf pkg)) then transformEvent (firstOf (eventsOf pkg))
                  else Some createEmptyEvent)
       (\<lambda>le. Some \<lparr>pin = optProp pkg ''pin'',
                    pkg_status = orElse (optProp (optProp pkg ''status'') ''code'') (JStr []),
                    pkg_description = orElse (optProp (optProp pkg ''status'') ''description'') (JStr []),
                    lastEvent = le\<rparr>)"
  by (cases "eventsOf pkg")
     (simp_all add: transformPackage_def eventsArray_eventsOf getProp_Some firstOf_def)

lemma lastEvent_Some_iff:
  "(\<exists>le. (if truthy e then transformEvent e else Some createEmptyEvent) = Some le)
     = hasText (optProp e ''dateTime'')"
proof (cases "truthy e")
  case True
  then show ?thesis using transformEvent_Some_iff[OF truthy_not_nullish[OF True]] by simp
next
  case False
  then show ?thesis by (simp add: optProp_falsy)
qed

lemma transformPackage_Some_iff: "(\<exists>p. transformPackage pkg = Some p) = packageOk pkg"
proof (cases "nullish pkg")
  case True
  then show ?thesis by (simp add: transformPackage_nullish packageOk_def)
next
  case False
  then show ?thesis
    unfolding packageOk_def lastEvent_Some_iff[symmetric]
    by (simp only: transformPackage_unfold bind_Some_iff simp_thms)
qed

lemma transformPackage_location:
  assumes "transformPackage pkg = Some p"
  shows "location (lastEvent p) = transformLocation (optProp (firstOf (eventsOf pkg)) ''location'')"
proof -
  have nn: "\<not> nullish pkg" using assms transformPackage_nullish by fastforce
  let ?e = "firstOf (eventsOf pkg)"
  from assms obtain le where
    le: "(if truthy ?e then transformEvent ?e else Some createEmptyEvent) = Some le"
    and p: "lastEvent p = le"
    unfolding transformPackage_unfold[OF nn]
    by (cases "if truthy ?e then transformEvent ?e else Some createEmptyEvent") auto
  show ?thesis
  proof (cases "truthy ?e")
    case True
    with le have "transformEvent ?e = Some le" by simp
    then show ?thesis unfolding p by (rule transformEvent_location)
  next
    case False
    with le have "le = createEmptyEvent" by simp
    then show ?thesis unfolding p using False
      by (simp add: optProp_falsy transformLocation_undefined)
  qed
qed

lemma packagesArray_total: "\<not> nullish s \<Longrightarrow> \<exists>pkgs. packagesArray s = Some pkgs"
  by (auto simp: packagesArray_def getProp_Some dest: truthy_not_nullish split: json.splits)

lemma packagesArray_packagesOf: "\<not> nullish s \<Longrightarrow> packagesArray s = Some (packagesOf s)"
  using packagesArray_total[of s] by (auto simp: packagesOf_def)

lemma packagesOf_falsy: "\<not> truthy s \<Longrightarrow> packagesOf s = []"
  by (cases s) (auto simp: packagesOf_def packagesArray_def)

lemma transformShipmentInfo_unfold:
  "truthy s \<Longrightarrow>
   transformShipmentInfo s =
     Option.bind (if truthy (optProp s ''shipmentCreated'')
                  then newDate (optProp s ''shipmentCreated'') else Some DateNow)
       (\<lambda>stamp. Option.bind (those (map transformPackage (packagesOf s)))
          (\<lambda>ps. Some \<lparr>shp_status = orElse (optProp (optProp s ''status'') ''code'') (JStr []),
                       shp_description = orElse (optProp (optProp s ''status'') ''description'') (JStr []),
                       isDelivered = (orElse (optProp (optProp s ''status'') ''code'') (JStr []) = JStr ''DEL''),
                       createdDate = stamp,
                       shipper = transformAddress (optProp (optProp s ''details'') ''shipper''),
                       receiver = transformAddress (optProp (optProp s ''details'') ''receiver''),
                       packages = ps\<rparr>))"
  by (simp add: transformShipmentInfo_def packagesArray_packagesOf getProp_Some Let_def
      truthy_not_nullish)

lemma packages_Some_iff:
  "(\<exists>ps. those (map transformPackage pkgs) = Some ps) = list_all packageOk pkgs"
  unfolding those_map_Some_iff transformPackage_Some_iff ..

lemma transformShipmentInfo_Some_iff:
  "(\<exists>shp. transformShipmentInfo s = Some shp) = shipmentOk s"
proof (cases "truthy s")
  case False
  then show ?thesis
    by (simp add: transformShipmentInfo_def shipmentOk_def optProp_falsy packagesOf_falsy)
next
  case True
  show ?thesis
    unfolding shipmentOk_def stamp_Some_iff[symmetric] packages_Some_iff[symmetric]
      transformShipmentInfo_unfold[OF True] bind_bind_Some_iff bind_Some_iff
    by blast
qed

lemma transformShipmentInfo_parts:
  assumes "transformShipmentInfo s = Some shp"
  shows "shipper shp = transformAddress (optProp (optProp s ''details'') ''shipper'')"
    and "receiver shp = transformAddress (optProp (optProp s ''details'') ''receiver'')"
    and "those (map transformPackage (packagesOf s)) = Some (packages shp)"
proof -
  have "shipper shp = transformAddress (optProp (optProp s ''details'') ''shipper'')
      \<and> receiver shp = transformAddress (optProp (optProp s ''details'') ''receiver'')
      \<and> those (map transformPackage (packagesOf s)) = Some (packages shp)"
  proof (cases "truthy s")
    case False
    with assms have "shp = createEmptyShipment" by (simp add: transformShipmentInfo_def)
    then show ?thesis using False
      by (simp add: createEmptyShipment_def optProp_falsy packagesOf_falsy
          transformAddress_undefined)
  next
    case True
    let ?d = "if truthy (optProp s ''shipmentCreated'')
              then newDate (optProp s ''shipmentCreated'') else Some DateNow"
    from assms obtain stamp where d: "?d = Some stamp"
      unfolding transformShipmentInfo_unfold[OF True] by (cases ?d) auto
    from assms obtain ps where ps: "those (map transformPackage (packagesOf s)) = Some ps"
      unfolding transformShipmentInfo_unfold[OF True] d
      by (cases "those (map transformPackage (packagesOf s))") auto
    from assms show ?thesis
      unfolding transformShipmentInfo_unfold[OF True] using d ps by auto
  qed
  then show "shipper shp = transformAddress (optProp (optProp s ''details'') ''shipper'')"
    and "receiver shp = transformAddress (optProp (optProp s ''details'') ''receiver'')"
    and "those (map transformPackage (packagesOf s)) = Some (packages shp)"
    by simp_all
qed

lemma errorsOf_Some_iff:
  "(\<exists>es. errorsOf render v = Some es) = list_all (\<lambda>e. \<exists>t. render e = Some t) (arrayEntries v)"
proof (cases v)
  case (JArr xs)
  then show ?thesis
    using those_map_Some_iff[of render xs] by (cases xs) (simp_all add: errorsOf_def arrayEntries_def)
qed (simp_all add: errorsOf_def arrayEntries_def)

lemma info_Some_iff:
  "(\<exists>t. (if truthy a then map_option f (toStr a) else Some []) = Some t) = hasText a"
proof (cases "truthy a")
  case True
  then show ?thesis unfolding toStr_Some_iff[symmetric] by (cases "toStr a") simp_all
next
  case False
  then show ?thesis by (simp add: falsy_hasText)
qed

lemma responseErrorText_Some_iff: "(\<exists>t. responseErrorText e = Some t) = responseErrorOk e"
proof (cases "nullish e")
  case True
  then show ?thesis by (simp add: responseErrorText_def responseErrorOk_def getProp_nullish)
next
  case False
  have u: "responseErrorText e =
      Option.bind (toStr (optProp e ''Code'')) (\<lambda>codeText.
        Option.bind (toStr (optProp e ''Description'')) (\<lambda>descText.
          Option.bind (if truthy (optProp e ''AdditionalInformation'')
                       then map_option (\<lambda>t. '' - '' @ t) (toStr (optProp e ''AdditionalInformation''))
                       else Some [])
            (\<lambda>infoText. Some (codeText @ '': '' @ descText @ infoText))))"
    using False by (simp add: responseErrorText_def getProp_Some)
  show ?thesis
    unfolding u responseErrorOk_def bind_bind_Some_iff bind_Some_iff info_Some_iff
      toStr_Some_iff[symmetric]
    using False by blast
qed

lemma shipmentErrorText_Some_iff: "(\<exists>t. shipmentErrorText e = Some t) = shipmentErrorOk e"
proof (cases "nullish e")
  case True
  then show ?thesis by (simp add: shipmentErrorText_def shipmentErrorOk_def getProp_nullish)
next
  case False
  have u: "shipmentErrorText e =
      Option.bind (toStr (orElse (optProp e ''code'') (JStr ''ERROR''))) (\<lambda>codeText.
        Option.bind (toStr (orElse (optProp e ''description'') (JStr ''Unknown error'')))
          (\<lambda>descText. Some (codeText @ '': '' @ descText)))"
    using False by (simp add: shipmentErrorText_def getProp_Some)
  have h: "hasText (optProp e ''code'')
             = (\<exists>t. toStr (orElse (optProp e ''code'') (JStr ''ERROR'')) = Some t)"
          "hasText (optProp e ''description'')
             = (\<exists>t. toStr (orElse (optProp e ''description'') (JStr ''Unknown error'')) = Some t)"
    by (simp_all add: toStr_Some_iff hasText_orElse)
  show ?thesis
    unfolding u shipmentErrorOk_def bind_bind_Some_iff bind_Some_iff h
    using False by blast
qed

lemma getIndex0_total: "\<not> nullish j \<Longrightarrow> \<exists>v. getIndex0 j = Some v"
  by (cases j) auto

lemma soapResult_total: "\<not> nullish j \<Longrightarrow> \<exists>result. soapResult j = Some result"
  using getIndex0_total[of j] by (auto simp: soapResult_def Let_def)

lemma soapResult_nullish: "nullish j \<Longrightarrow> soapResult j = None"
  by (cases j) (auto simp: soapResult_def)

lemma searchResultsArray_falsy: "\<not> truthy sr \<Longrightarrow> searchResultsArray sr = []"
  by (cases sr) (auto simp: searchResultsArray_def optProp_def Let_def)

lemma statusOf_total: "\<exists>sd. statusOf errs fr = Some sd"
  by (cases "truthy fr") (auto simp: statusOf_def getProp_Some dest: truthy_not_nullish)

lemma transformTrackingResponse_invalid:
  assumes res: "soapResult j = Some result"
      and inv: "\<not> truthy result
                \<or> (\<not> truthy (optProp result ''ResponseInformation'')
                    \<and> \<not> truthy (optProp result ''SearchResults''))"
  shows "transformTrackingResponse j = Some invalidSoapResponse"
    and "responseErrors j = []"
    and "firstSearchResult j = JUndefined"
proof -
  have f: "\<not> truthy (optProp result ''ResponseInformation'')"
          "\<not> truthy (optProp result ''SearchResults'')"
    using inv by (auto simp: optProp_falsy)
  show "transformTrackingResponse j = Some invalidSoapResponse"
    using res f
    by (cases "truthy result")
       (simp_all add: transformTrackingResponse_def getProp_Some truthy_not_nullish)
  show "responseErrors j = []"
    using res f(1) by (simp add: responseErrors_def optProp_falsy arrayEntries_def)
  show "firstSearchResult j = JUndefined"
    using res f(2) by (simp add: firstSearchResult_def searchResultsArray_falsy firstOf_def)
qed

lemma transformTrackingResponse_unfold:
  assumes res: "soapResult j = Some result"
      and valid: "truthy result"
                 "truthy (optProp result ''ResponseInformation'')
                  \<or> truthy (optProp result ''SearchResults'')"
  shows "transformTrackingResponse j =
     Option.bind (errorsOf responseErrorText
                    (optProp (optProp result ''ResponseInformation'') ''Errors'')) (\<lambda>errs1.
       Option.bind (errorsOf shipmentErrorText
                      (optProp (firstSearchResult j) ''shipmentErrors'')) (\<lambda>errs2.
         Option.bind (statusOf (errs1 @ errs2) (firstSearchResult j)) (\<lambda>sd.
           Option.bind (transformShipmentInfo (optProp (firstSearchResult j) ''Shipment''))
             (\<lambda>shp. Some \<lparr>status = fst sd, description = snd sd, errors = errs1 @ errs2,
                           shipment = shp\<rparr>))))"
  using res valid
  by (auto simp: transformTrackingResponse_def getProp_Some truthy_not_nullish
      firstSearchResult_def Let_def)

lemma transformTrackingResponse_Some_iff:
  "(\<exists>r. transformTrackingResponse j = Some r) = transformable j"
proof (cases "nullish j")
  case True
  then show ?thesis
    by (simp add: transformTrackingResponse_def soapResult_nullish transformable_def)
next
  case False
  from soapResult_total[OF False] obtain result where res: "soapResult j = Some result"
    by blast
  show ?thesis
  proof (cases "truthy result
                \<and> (truthy (optProp result ''ResponseInformation'')
                    \<or> truthy (optProp result ''SearchResults''))")
    case invalid: False
    then have inv: "\<not> truthy result
                \<or> (\<not> truthy (optProp result ''ResponseInformation'')
                    \<and> \<not> truthy (optProp result ''SearchResults''))"
      by blast
    have "shipmentOk JUndefined"
      by (simp add: shipmentOk_def optProp_def packagesOf_falsy)
    then show ?thesis
      using False transformTrackingResponse_invalid[OF res inv]
      by (simp add: transformable_def shipmentErrors_def optProp_def arrayEntries_def)
  next
    case valid: True
    then have v: "truthy result"
                 "truthy (optProp result ''ResponseInformation'')
                  \<or> truthy (optProp result ''SearchResults'')"
      by blast+
    have e: "responseErrors j
               = arrayEntries (optProp (optProp result ''ResponseInformation'') ''Errors'')"
      using res by (simp add: responseErrors_def)
    have "(\<exists>r. transformTrackingResponse j = Some r)
            = ((\<exists>es. errorsOf responseErrorText
                       (optProp (optProp result ''ResponseInformation'') ''Errors'') = Some es)
               \<and> (\<exists>es. errorsOf shipmentErrorText
                          (optProp (firstSearchResult j) ''shipmentErrors'') = Some es)
               \<and> (\<exists>shp. transformShipmentInfo (optProp (firstSearchResult j) ''Shipment'')
                          = Some shp))"
      unfolding transformTrackingResponse_unfold[OF res v]
      by (rule bind4_Some_iff) (rule statusOf_total)
    then show ?thesis
      unfolding errorsOf_Some_iff responseErrorText_Some_iff shipmentErrorText_Some_iff
        transformShipmentInfo_Some_iff
      using False by (simp add: transformable_def e shipmentErrors_def)
  qed
qed

lemma transformTrackingResponse_shipment:
  assumes "transformTrackingResponse j = Some r"
  shows "transformShipmentInfo (optProp (firstSearchResult j) ''Shipment'') = Some (shipment r)"
proof -
  have "\<not> nullish j"
    using assms by (auto simp: transformTrackingResponse_def soapResult_nullish)
  from soapResult_total[OF this] obtain result where res: "soapResult j = Some result"
    by blast
  show ?thesis
  proof (cases "truthy result
                \<and> (truthy (optProp result ''ResponseInformation'')
                    \<or> truthy (optProp result ''SearchResults''))")
    case False
    then have inv: "\<not> truthy result
                \<or> (\<not> truthy (optProp result ''ResponseInformation'')
                    \<and> \<not> truthy (optProp result ''SearchResults''))"
      by blast
    from transformTrackingResponse_invalid[OF res inv] assms
    show ?thesis
      by (simp add: invalidSoapResponse_def optProp_def transformShipmentInfo_def)
  next
    case True
    then have v: "truthy result"
                 "truthy (optProp result ''ResponseInformation'')
                  \<or> truthy (optProp result ''SearchResults'')"
      by blast+
    from assms show ?thesis
      unfolding transformTrackingResponse_unfold[OF res v]
      by (auto simp: bind_eq_Some_conv)
  qed
qed

lemma transformAddress_source:
  assumes "\<And>v. P (orElse v (JStr [])) = S v"
  shows "addressAll P (transformAddress a) = addressSource S a"
  by (simp add: addressAll_def transformAddress_def addressSource_def assms)

lemma transformLocation_source:
  assumes "\<And>v. P (orElse v (JStr [])) = S v"
  shows "locationAll P (transformLocation l) = locationSource S l"
  by (simp add: locationAll_def transformLocation_def locationSource_def assms)

lemma transformShipmentInfo_source:
  assumes f: "\<And>v. P (orElse v (JStr [])) = S v"
      and t: "transformShipmentInfo s = Some shp"
  shows "shipmentAll P shp = shipmentSource S s"
proof -
  note parts = transformShipmentInfo_parts[OF t]
  have "list_all (\<lambda>p. locationAll P (location (lastEvent p))) (packages shp)
          = list_all (\<lambda>pkg. locationSource S (optProp (firstOf (eventsOf pkg)) ''location''))
              (packagesOf s)"
  proof (rule those_map_list_all[OF parts(3)])
    fix x y assume "transformPackage x = Some y"
    then show "locationAll P (location (lastEvent y))
                 = locationSource S (optProp (firstOf (eventsOf x)) ''location'')"
      by (simp add: transformPackage_location transformLocation_source[of P S, OF f])
  qed
  then show ?thesis
    by (simp add: shipmentAll_def shipmentSource_def parts(1,2)
        transformAddress_source[of P S, OF f])
qed

lemma orElse_not_nullish: "(\<not> nullish (orElse v (JStr []))) = True"
  by (cases v) (auto simp: orElse_def)

lemma orElse_isString: "isString (orElse v (JStr [])) = textOrFalsy v"
  by (simp add: orElse_def textOrFalsy_def)

lemma shipmentSource_True: "shipmentSource (\<lambda>v. True) s"
  by (simp add: shipmentSource_def addressSource_def locationSource_def list_all_iff)

text \<open>
  C4, as the code has it. \<^verbatim>\<open>transformTrackingResponse\<close> returns a response, which by
  its type has a shipment and a list of errors, exactly on the payloads that are not
  \<^verbatim>\<open>null\<close> or \<^verbatim>\<open>undefined\<close>, in which no entry of the \<^verbatim>\<open>Errors\<close> array, of the
  first search result's \<^verbatim>\<open>shipmentErrors\<close> array and of its shipment's packages is
  \<^verbatim>\<open>null\<close> or \<^verbatim>\<open>undefined\<close>, and in which the values it renders as text (code,
  description and additional information of those errors) or turns into a date (the
  shipment's \<^verbatim>\<open>shipmentCreated\<close>, the \<^verbatim>\<open>dateTime\<close> of each package's first event)
  have a text form; on every other payload it throws. In every response it returns, no
  address field and no event location field is \<^verbatim>\<open>null\<close> or absent, and all of them
  are strings exactly when each of the carrier's values for them is a string or falsy.
  A missing shipment becomes the empty shipment, a missing address the empty address, a
  missing location the empty location.
\<close>

theorem transformTrackingResponse_total_on_partial_input:
  "((\<exists>r. transformTrackingResponse soapResponse = Some r) \<longleftrightarrow> transformable soapResponse)
   \<and> (\<forall>r. transformTrackingResponse soapResponse = Some r \<longrightarrow>
         shipmentAll (\<lambda>v. \<not> nullish v) (shipment r)
         \<and> (shipmentAll isString (shipment r)
              \<longleftrightarrow> shipmentSource textOrFalsy
                    (optProp (firstSearchResult soapResponse) ''Shipment'')))
   \<and> (\<not> truthy shipmentInfo \<longrightarrow> transformShipmentInfo shipmentInfo = Some createEmptyShipment)
   \<and> (nullish address \<longrightarrow> transformAddress address = emptyAddress
                               \<and> transformLocation address = location createEmptyEvent)"
proof -
  have nonnull: "shipmentAll (\<lambda>v. \<not> nullish v) (shipment r)"
    if r: "transformTrackingResponse soapResponse = Some r" for r
    using transformShipmentInfo_source[of "\<lambda>v. \<not> nullish v" "\<lambda>v. True",
        OF orElse_not_nullish transformTrackingResponse_shipment[OF r]]
    by (simp add: shipmentSource_True)
  have strings: "shipmentAll isString (shipment r)
              \<longleftrightarrow> shipmentSource textOrFalsy
                    (optProp (firstSearchResult soapResponse) ''Shipment'')"
    if r: "transformTrackingResponse soapResponse = Some r" for r
    by (rule transformShipmentInfo_source[of isString textOrFalsy,
          OF orElse_isString transformTrackingResponse_shipment[OF r]])
  have empties: "\<not> truthy shipmentInfo \<longrightarrow> transformShipmentInfo shipmentInfo = Some createEmptyShipment"
    by (simp add: transformShipmentInfo_def)
  have addr: "nullish address \<longrightarrow> transformAddress address = emptyAddress
                               \<and> transformLocation address = location createEmptyEvent"
    by (cases address) (simp_all add: transformAddress_undefined transformLocation_undefined
          transformAddress_def transformLocation_def emptyAddress_def
          createEmptyEvent_def optProp_def orElse_def)
  show ?thesis
    using transformTrackingResponse_Some_iff[of soapResponse] nonnull strings empties addr
    by blast
qed

lemma soapWithShipment_parts:
  "responseErrors (soapWithShipment s) = []"
  "shipmentErrors (soapWithShipment s) = []"
  "optProp (firstSearchResult (soapWithShipment s)) ''Shipment'' = s"
  by (simp_all add: responseErrors_def shipmentErrors_def firstSearchResult_def soapResult_def
      soapWithShipment_def optProp_def arrayEntries_def searchResultsArray_def firstOf_def)

lemma partialShipment_parts:
  "packagesOf partialShipment
     = [JObj [(''pin'', JStr ''329702318141''),
              (''events'', JObj [(''event'', JObj [
                 (''code'', JStr ''2300''),
                 (''location'', JObj [(''StreetAddress1'', JNull), (''City'', JStr ''TORONTO'')])])])]]"
  "eventsOf (JObj [(''pin'', JStr ''329702318141''),
              (''events'', JObj [(''event'', JObj [
                 (''code'', JStr ''2300''),
                 (''location'', JObj [(''StreetAddress1'', JNull), (''City'', JStr ''TORONTO'')])])])])
     = [JObj [(''code'', JStr ''2300''),
              (''location'', JObj [(''StreetAddress1'', JNull), (''City'', JStr ''TORONTO'')])]]"
  by (simp_all add: packagesOf_def packagesArray_def partialShipment_def eventsOf_def
      eventsArray_def)

lemma partial_eval:
  "transformTrackingResponse (soapWithShipment partialShipment)
     = Some \<lparr>status = ''success'', description = ''Tracking information retrieved successfully'',
             errors = [],
             shipment = \<lparr>shp_status = JStr ''INT'', shp_description = JStr [],
               isDelivered = False, createdDate = DateNow, shipper = emptyAddress,
               receiver = \<lparr>addr_city = JStr [], addr_proviceState = JStr ''ON'',
                            addr_countryCode = JStr [], addr_postalZipCode = JStr []\<rparr>,
               packages = [\<lparr>pin = JStr ''329702318141'', pkg_status = JStr [],
                             pkg_description = JStr [],
                             lastEvent = \<lparr>dateTime = DateNow, ev_code = JStr ''2300'',
                               ev_description = JStr [],
                               location = \<lparr>address_1 = JStr [], address_2 = JStr [],
                                  loc_city = JStr ''TORONTO'', loc_proviceState = JStr [],
                                  loc_countryCode = JStr [], loc_postalZipCode = JStr []\<rparr>\<rparr>\<rparr>]\<rparr>\<rparr>"
  by (simp add: transformTrackingResponse_def soapWithShipment_def soapResult_def optProp_def
      errorsOf_def searchResultsArray_def firstOf_def statusOf_def)
     (simp add: partialShipment_def transformShipmentInfo_def packagesArray_def
      transformPackage_def eventsArray_def transformEvent_def transformLocation_def
      transformAddress_def emptyAddress_def optProp_def orElse_def)

lemma nullResult_eval:
  "transformTrackingResponse nullResultSoap
     = Some \<lparr>status = ''not_found'', description = ''No search results found'', errors = [],
             shipment = createEmptyShipment\<rparr>"
  by (simp add: transformTrackingResponse_def nullResultSoap_def soapResult_def optProp_def
      errorsOf_def searchResultsArray_def firstOf_def statusOf_def transformShipmentInfo_def)

lemma nullEvent_eval:
  "map_option (\<lambda>r. map lastEvent (packages (shipment r)))
       (transformTrackingResponse (soapWithShipment nullEventShipment))
     = Some [createEmptyEvent]"
  by (simp add: transformTrackingResponse_def soapWithShipment_def soapResult_def optProp_def
      errorsOf_def searchResultsArray_def firstOf_def statusOf_def)
     (simp add: nullEventShipment_def transformShipmentInfo_def packagesArray_def
      transformPackage_def eventsArray_def optProp_def orElse_def Let_def)

theorem transformTrackingResponse_total_on_partial_input_witness:
  "transformable (soapWithShipment partialShipment)
   \<and> shipmentSource textOrFalsy
        (optProp (firstSearchResult (soapWithShipment partialShipment)) ''Shipment'')
   \<and> (\<exists>r. transformTrackingResponse (soapWithShipment partialShipment) = Some r
          \<and> shipmentAll (\<lambda>v. \<not> nullish v) (shipment r)
          \<and> shipmentAll isString (shipment r)
          \<and> shipper (shipment r) = emptyAddress
          \<and> addr_city (receiver (shipment r)) = JStr [])
   \<and> transformable nullResultSoap
   \<and> (\<exists>r. transformTrackingResponse nullResultSoap = Some r \<and> status r = ''not_found'')
   \<and> transformable (soapWithShipment nullEventShipment)
   \<and> (\<exists>r. transformTrackingResponse (soapWithShipment nullEventShipment) = Some r
          \<and> map lastEvent (packages (shipment r)) = [createEmptyEvent])
   \<and> transformable noTextErrorSoap = False
   \<and> transformTrackingResponse noTextErrorSoap = None
   \<and> transformShipmentInfo JNull = Some createEmptyShipment
   \<and> transformAddress JNull = emptyAddress"
proof -
  note inst = transformTrackingResponse_total_on_partial_input[of "soapWithShipment partialShipment" JNull JNull]
  have t: "transformable (soapWithShipment partialShipment)"
    by (simp add: transformable_def soapWithShipment_parts shipmentOk_def packageOk_def
        partialShipment_parts firstOf_def)
       (simp add: soapWithShipment_def partialShipment_def optProp_def)
  have s: "shipmentSource textOrFalsy
        (optProp (firstSearchResult (soapWithShipment partialShipment)) ''Shipment'')"
    by (simp add: soapWithShipment_parts shipmentSource_def partialShipment_parts firstOf_def)
       (simp add: partialShipment_def addressSource_def locationSource_def textOrFalsy_def
        optProp_def)
  from inst t obtain r where r: "transformTrackingResponse (soapWithShipment partialShipment) = Some r"
    by blast
  from inst r s have a: "shipmentAll (\<lambda>v. \<not> nullish v) (shipment r)"
    "shipmentAll isString (shipment r)" by blast+
  from r have e: "shipper (shipment r) = emptyAddress" "addr_city (receiver (shipment r)) = JStr []"
    unfolding partial_eval by auto
  have 1: "\<exists>r. transformTrackingResponse (soapWithShipment partialShipment) = Some r
          \<and> shipmentAll (\<lambda>v. \<not> nullish v) (shipment r)
          \<and> shipmentAll isString (shipment r)
          \<and> shipper (shipment r) = emptyAddress
          \<and> addr_city (receiver (shipment r)) = JStr []"
    using r a e by blast
  have tn: "transformable nullResultSoap"
    by (simp add: transformable_def responseErrors_def shipmentErrors_def firstSearchResult_def
        soapResult_def nullResultSoap_def optProp_def arrayEntries_def searchResultsArray_def
        firstOf_def shipmentOk_def packagesOf_def packagesArray_def)
  have 2: "\<exists>r. transformTrackingResponse nullResultSoap = Some r \<and> status r = ''not_found''"
    by (simp add: nullResult_eval)
  have te: "transformable (soapWithShipment nullEventShipment)"
    using transformTrackingResponse_total_on_partial_input[of "soapWithShipment nullEventShipment" JNull JNull]
      nullEvent_eval by (cases "transformTrackingResponse (soapWithShipment nullEventShipment)") auto
  have 3: "\<exists>r. transformTrackingResponse (soapWithShipment nullEventShipment) = Some r
          \<and> map lastEvent (packages (shipment r)) = [createEmptyEvent]"
    using nullEvent_eval by (cases "transformTrackingResponse (soapWithShipment nullEventShipment)") auto
  have nt: "transformable noTextErrorSoap = False"
    by (simp add: transformable_def responseErrors_def soapResult_def noTextErrorSoap_def
        optProp_def arrayEntries_def responseErrorOk_def)
  have 4: "transformTrackingResponse noTextErrorSoap = None"
    using transformTrackingResponse_total_on_partial_input[of noTextErrorSoap JNull JNull] nt
    by (cases "transformTrackingResponse noTextErrorSoap") auto
  have 5: "transformShipmentInfo JNull = Some createEmptyShipment" "transformAddress JNull = emptyAddress"
    using inst by simp_all
  show ?thesis using t s 1 tn 2 te 3 nt 4 5 by blast
qed

text \<open>
  C4 as stated fails: the transformer throws on a \<^verbatim>\<open>null\<close> or \<^verbatim>\<open>undefined\<close>
  payload, on a \<^verbatim>\<open>null\<close> entry of the packages array, on a \<^verbatim>\<open>null\<close> entry of the
  errors array, on an error code and on a creation time that is an object with a
  \<^verbatim>\<open>toString\<close> property; and a city given as the number 42 comes out as the number 42.
\<close>

theorem transformTrackingResponse_raises_counterexample:
  "transformTrackingResponse JNull = None
   \<and> transformTrackingResponse JUndefined = None
   \<and> transformTrackingResponse (soapWithShipment nullPackageShipment) = None
   \<and> transformTrackingResponse nullErrorSoap = None
   \<and> transformTrackingResponse noTextErrorSoap = None
   \<and> transformTrackingResponse (soapWithShipment noTextDateShipment) = None
   \<and> addr_city (shipper (shipment (the (transformTrackingResponse
        (soapWithShipment numericCityShipment))))) = JNum ''42''
   \<and> isString (addr_city (shipper (shipment (the (transformTrackingResponse
        (soapWithShipment numericCityShipment)))))) = False"
proof -
  have a: "transformTrackingResponse JNull = None" "transformTrackingResponse JUndefined = None"
    by (simp_all add: transformTrackingResponse_def soapResult_def)
  have b: "transformTrackingResponse (soapWithShipment nullPackageShipment) = None"
    by (simp add: transformTrackingResponse_def soapWithShipment_def soapResult_def optProp_def
        errorsOf_def searchResultsArray_def firstOf_def statusOf_def)
       (simp add: nullPackageShipment_def transformShipmentInfo_def packagesArray_def
        transformPackage_def eventsArray_def)
  have c: "transformTrackingResponse nullErrorSoap = None"
    by (simp add: transformTrackingResponse_def nullErrorSoap_def soapResult_def optProp_def
        errorsOf_def responseErrorText_def)
  have c': "transformTrackingResponse noTextErrorSoap = None"
    by (simp add: transformTrackingResponse_def noTextErrorSoap_def soapResult_def optProp_def
        errorsOf_def responseErrorText_def)
  have c'': "transformTrackingResponse (soapWithShipment noTextDateShipment) = None"
    by (simp add: transformTrackingResponse_def soapWithShipment_def soapResult_def optProp_def
        errorsOf_def searchResultsArray_def firstOf_def statusOf_def)
       (simp add: noTextDateShipment_def transformShipmentInfo_def packagesArray_def
        newDate_def Let_def)
  have d: "shipper (shipment (the (transformTrackingResponse (soapWithShipment numericCityShipment))))
             = emptyAddress\<lparr>addr_city := JNum ''42''\<rparr>"
    by (simp add: transformTrackingResponse_def soapWithShipment_def soapResult_def optProp_def
        errorsOf_def searchResultsArray_def firstOf_def statusOf_def)
       (simp add: numericCityShipment_def transformShipmentInfo_def packagesArray_def
        transformAddress_def emptyAddress_def optProp_def orElse_def Let_def)
  show ?thesis using a b c c' c'' by (simp add: d)
qed

end
